theory Spec2Isabelle
  imports Main "HOL-Library.Word" "HOL-Library.Signed_Division"
begin

section \<open>The encoder bundle of objToJSON.c\<close>

text \<open>
  \<^verbatim>\<open>enum PANDAS_FORMAT { SPLIT, RECORDS, INDEX, COLUMNS, VALUES };\<close> and the four date
  units that \<^verbatim>\<open>objToJSON\<close> can store in \<^verbatim>\<open>datetimeUnit\<close>.
\<close>

datatype PANDAS_FORMAT = SPLIT | RECORDS | INDEX | COLUMNS | VALUES

datatype NPY_DATETIMEUNIT = NPY_FR_s | NPY_FR_ms | NPY_FR_us | NPY_FR_ns

text \<open>
  The Python error indicator. \<^verbatim>\<open>PyErr_Occurred()\<close> is \<open>Some e\<close>, a clear indicator
  is \<open>None\<close>. \<open>ArgumentError\<close> is whatever \<^verbatim>\<open>PyArg_ParseTupleAndKeywords\<close> raised,
  \<open>Raised\<close> an exception of a callee outside this file, \<open>NullDereference\<close> marks a
  \<^verbatim>\<open>NULL\<close> handed to a C-API call that requires a valid pointer.
\<close>

datatype py_error =
    ValueError string
  | TypeError string
  | OverflowError string
  | RuntimeError string
  | MemoryError
  | ArgumentError
  | Raised string
  | NullDereference

text \<open>
  \<^verbatim>\<open>PyObjectEncoder\<close>: the fields of the struct that this file reads or writes, with the
  three options of the embedded \<^verbatim>\<open>JSONObjectEncoder\<close> that \<^verbatim>\<open>objToJSON\<close> sets.
  \<^verbatim>\<open>npyCtxtPassthru\<close> is a pointer to the strider of the array being walked; at most one
  strider is live during a walk, so the slot is modelled by whether it is set.
  \<^verbatim>\<open>npyValue\<close> is the address of the staged array element.
\<close>

record PyObjectEncoder =
  forceASCII :: bool
  encodeHTMLChars :: bool
  doublePrecision :: int
  npyCtxtPassthru :: bool
  npyType :: int
  npyValue :: int
  datetimeIso :: bool
  datetimeUnit :: NPY_DATETIMEUNIT
  outputFormat :: PANDAS_FORMAT
  originalOutputFormat :: PANDAS_FORMAT
  defaultHandler :: bool

section \<open>The top-level entry objToJSON\<close>

text \<open>
  The arguments as \<^verbatim>\<open>PyArg_ParseTupleAndKeywords(args, kwargs, "O|OiOssOO", ...)\<close> leaves
  them: an optional argument that was not passed keeps its \<^verbatim>\<open>NULL\<close> initialiser
  (\<open>None\<close>). The truth values are what \<^verbatim>\<open>PyObject_IsTrue\<close> answers.
\<close>

datatype handler_arg = Handler_None | Handler_Callable | Handler_NotCallable

record 'obj objToJSON_args =
  oinput :: 'obj
  oensureAscii :: "bool option"
  idoublePrecision :: "int option"
  oencodeHTMLChars :: "bool option"
  sOrient :: "string option"
  sdateFormat :: "string option"
  oisoDates :: "bool option"
  odefHandler :: "handler_arg option"

text \<open>
  What \<^verbatim>\<open>JSON_EncodeObject(oinput, encoder, buffer, sizeof(buffer))\<close> leaves behind. The
  writer is not part of this file, so its outcome is a parameter: the pointer it returns
  (\<^verbatim>\<open>NULL\<close>, the caller's inline \<^verbatim>\<open>buffer\<close>, or a heap block it allocated when the
  output outgrew the inline buffer), the text at that pointer, the error indicator and
  the encoder's \<^verbatim>\<open>errorMsg\<close> slot.
\<close>

datatype buffer_ptr = NullPtr | InlineBuffer | HeapBlock nat

record writer_outcome =
  w_ret :: buffer_ptr
  w_written :: string
  w_PyErr_Occurred :: "py_error option"
  w_errorMsg :: "string option"

text \<open>
  The result of the call: the returned text or the raised error, and the pointers that
  were passed to \<^verbatim>\<open>encoder->free\<close>, in call order.
\<close>

record call_result =
  returned :: "py_error + string"
  freed :: "buffer_ptr list"

text \<open>
  Lines 2135--2149 of \<^verbatim>\<open>objToJSON\<close>: the \<^verbatim>\<open>orient\<close> option. The messages of this and
  the following checks are the format strings without their arguments.
\<close>

definition objToJSON_orient :: "string option \<Rightarrow> PyObjectEncoder \<Rightarrow> py_error + PyObjectEncoder" where
  "objToJSON_orient orient enc =
     (case orient of
        None \<Rightarrow> Inr enc
      | Some s \<Rightarrow>
          if s = ''records'' then Inr (enc\<lparr>outputFormat := RECORDS\<rparr>)
          else if s = ''index'' then Inr (enc\<lparr>outputFormat := INDEX\<rparr>)
          else if s = ''split'' then Inr (enc\<lparr>outputFormat := SPLIT\<rparr>)
          else if s = ''values'' then Inr (enc\<lparr>outputFormat := VALUES\<rparr>)
          else if s \<noteq> ''columns'' then Inl (ValueError ''Invalid value for option orient'')
          else Inr enc)"

text \<open>Lines 2151--2166: the \<^verbatim>\<open>date_unit\<close> option.\<close>

definition objToJSON_date_unit :: "string option \<Rightarrow> PyObjectEncoder \<Rightarrow> py_error + PyObjectEncoder" where
  "objToJSON_date_unit date_unit enc =
     (case date_unit of
        None \<Rightarrow> Inr enc
      | Some u \<Rightarrow>
          if u = ''s'' then Inr (enc\<lparr>datetimeUnit := NPY_FR_s\<rparr>)
          else if u = ''ms'' then Inr (enc\<lparr>datetimeUnit := NPY_FR_ms\<rparr>)
          else if u = ''us'' then Inr (enc\<lparr>datetimeUnit := NPY_FR_us\<rparr>)
          else if u = ''ns'' then Inr (enc\<lparr>datetimeUnit := NPY_FR_ns\<rparr>)
          else Inl (ValueError ''Invalid value for option date_unit''))"

text \<open>Lines 2172--2178: the \<^verbatim>\<open>default_handler\<close> option.\<close>

definition objToJSON_default_handler ::
  "handler_arg option \<Rightarrow> PyObjectEncoder \<Rightarrow> py_error + PyObjectEncoder" where
  "objToJSON_default_handler default_handler enc =
     (case default_handler of
        None \<Rightarrow> Inr enc
      | Some Handler_None \<Rightarrow> Inr enc
      | Some Handler_NotCallable \<Rightarrow> Inl (TypeError ''Default handler is not callable'')
      | Some Handler_Callable \<Rightarrow> Inr (enc\<lparr>defaultHandler := True\<rparr>))"

text \<open>
  Lines 2068--2124: the encoder with its initial values and the two flags
  \<^verbatim>\<open>ensure_ascii\<close> and \<^verbatim>\<open>encode_html_chars\<close>. \<^verbatim>\<open>originalOutputFormat\<close> has no
  initialiser; it is assigned before the writer runs.
\<close>

definition objToJSON_init :: "'obj objToJSON_args \<Rightarrow> PyObjectEncoder" where
  "objToJSON_init a =
    (let enc0 = \<lparr> forceASCII = True, encodeHTMLChars = False, doublePrecision = 10,
                  npyCtxtPassthru = False, npyType = - 1, npyValue = 0,
                  datetimeIso = False, datetimeUnit = NPY_FR_ms,
                  outputFormat = COLUMNS, originalOutputFormat = COLUMNS,
                  defaultHandler = False \<rparr>;
         enc1 = (if oensureAscii a = Some False then enc0\<lparr>forceASCII := False\<rparr> else enc0)
     in if oencodeHTMLChars a = Some True then enc1\<lparr>encodeHTMLChars := True\<rparr> else enc1)"

text \<open>
  Lines 2056--2180 of \<^verbatim>\<open>objToJSON\<close>: the options are checked in the order precision,
  orient, date unit, default handler. \<^verbatim>\<open>JSON_DOUBLE_MAX_DECIMALS\<close> is a macro of the
  writer's header and is the parameter \<open>max_decimals\<close>.
\<close>

definition objToJSON_encoder :: "int \<Rightarrow> 'obj objToJSON_args \<Rightarrow> py_error + PyObjectEncoder" where
  "objToJSON_encoder max_decimals a =
    (let prec = (case idoublePrecision a of None \<Rightarrow> 10 | Some p \<Rightarrow> p)
     in if prec > max_decimals \<or> prec < 0 then
          Inl (ValueError ''Invalid value for option double_precision'')
        else
          (case objToJSON_orient (sOrient a) ((objToJSON_init a)\<lparr>doublePrecision := prec\<rparr>) of
             Inl e \<Rightarrow> Inl e
           | Inr enc4 \<Rightarrow>
              (case objToJSON_date_unit (sdateFormat a) enc4 of
                 Inl e \<Rightarrow> Inl e
               | Inr enc5 \<Rightarrow>
                  (case objToJSON_default_handler (odefHandler a)
                          (if oisoDates a = Some True then enc5\<lparr>datetimeIso := True\<rparr> else enc5) of
                     Inl e \<Rightarrow> Inl e
                   | Inr enc7 \<Rightarrow> Inr (enc7\<lparr>originalOutputFormat := outputFormat enc7\<rparr>)))))"

text \<open>
  Lines 2182--2208: the three exits after the writer has run. \<open>from_string\<close> is
  \<^verbatim>\<open>PyUnicode_FromString\<close>.
\<close>

definition objToJSON_finish :: "(string \<Rightarrow> py_error + string) \<Rightarrow> writer_outcome \<Rightarrow> call_result" where
  "objToJSON_finish from_string w =
    (case w_PyErr_Occurred w of
       Some e \<Rightarrow> \<lparr> returned = Inl e, freed = [] \<rparr>
     | None \<Rightarrow>
        (case w_errorMsg w of
           Some m \<Rightarrow>
             \<lparr> returned = Inl (OverflowError m),
               freed = (if w_ret w \<noteq> InlineBuffer then [w_ret w] else []) \<rparr>
         | None \<Rightarrow>
             \<lparr> returned = (if w_ret w = NullPtr then Inl NullDereference
                            else from_string (w_written w)),
               freed = (if w_ret w \<noteq> InlineBuffer then [w_ret w] else []) \<rparr>))"

text \<open>
  The whole call. \<open>parsed\<close> is \<open>None\<close> when \<^verbatim>\<open>PyArg_ParseTupleAndKeywords\<close> failed.
  \<open>writer\<close> is \<^verbatim>\<open>JSON_EncodeObject\<close>.
\<close>

definition objToJSON ::
  "int \<Rightarrow> (PyObjectEncoder \<Rightarrow> 'obj \<Rightarrow> writer_outcome) \<Rightarrow> (string \<Rightarrow> py_error + string) \<Rightarrow>
   'obj objToJSON_args option \<Rightarrow> call_result" where
  "objToJSON max_decimals writer from_string parsed =
    (case parsed of
       None \<Rightarrow> \<lparr> returned = Inl ArgumentError, freed = [] \<rparr>
     | Some a \<Rightarrow>
        (case objToJSON_encoder max_decimals a of
           Inl e \<Rightarrow> \<lparr> returned = Inl e, freed = [] \<rparr>
         | Inr enc \<Rightarrow> objToJSON_finish from_string (writer enc (oinput a))))"


section \<open>The attribute-dir driver\<close>

text \<open>
  The fields of \<^verbatim>\<open>TypeContext\<close> that the Dir driver uses. \<^verbatim>\<open>attrList\<close> is the list
  answered by \<^verbatim>\<open>PyObject_Dir\<close>; \<^verbatim>\<open>itemName\<close> holds the UTF-8 bytes of the current
  name, \<^verbatim>\<open>itemValue\<close> the fetched attribute.
\<close>

record 'v Dir_context =
  attrList :: "string list"
  dir_index :: int
  dir_size :: int
  dir_itemName :: "string option"
  dir_itemValue :: "'v option"

definition Dir_iterBegin :: "string list \<Rightarrow> 'v Dir_context \<Rightarrow> 'v Dir_context" where
  "Dir_iterBegin names tc =
     tc\<lparr> attrList := names, dir_index := 0, dir_size := int (length names) \<rparr>"

definition PyErr_Clear :: "py_error option \<Rightarrow> py_error option" where
  "PyErr_Clear err = None"

text \<open>
  The \<^verbatim>\<open>for\<close> loop of \<^verbatim>\<open>Dir_iterNext\<close> (lines 917--950), from position \<open>i\<close>.
  \<open>getattr\<close> is \<^verbatim>\<open>PyObject_GetAttr(obj, attrName)\<close> (\<open>Inl\<close> when it raises), \<open>callable\<close> is
  \<^verbatim>\<open>PyCallable_Check\<close>. The result is the position, name and value at the \<^verbatim>\<open>break\<close>,
  or \<open>None\<close> when the loop ran off the end, together with the error indicator.
\<close>

function Dir_loop ::
  "(string \<Rightarrow> py_error + 'v) \<Rightarrow> ('v \<Rightarrow> bool) \<Rightarrow> string list \<Rightarrow> int \<Rightarrow> int \<Rightarrow> py_error option \<Rightarrow>
   (int \<times> string \<times> 'v) option \<times> py_error option" where
  "Dir_loop getattr callable names sz i err =
     (if i < sz then
        (let attrName = names ! nat i in
         if (case attrName of [] \<Rightarrow> False | c # _ \<Rightarrow> c = CHR ''_'') then
           Dir_loop getattr callable names sz (i + 1) err
         else
           (case getattr attrName of
              Inl e \<Rightarrow> Dir_loop getattr callable names sz (i + 1) (PyErr_Clear (Some e))
            | Inr v \<Rightarrow>
                if callable v then Dir_loop getattr callable names sz (i + 1) err
                else (Some (i, attrName, v), err)))
      else (None, err))"
  by pat_completeness auto
termination
  by (relation "measure (\<lambda>(getattr, callable, names, sz, i, err). nat (sz - i))") auto

text \<open>
  \<^verbatim>\<open>Dir_iterNext\<close>. \<open>err\<close> is the error indicator on entry and \<open>msg\<close> the encoder's
  \<^verbatim>\<open>errorMsg\<close>. At the \<^verbatim>\<open>break\<close> the index is incremented inside the loop body and once
  more after the loop.
\<close>

definition Dir_iterNext ::
  "(string \<Rightarrow> py_error + 'v) \<Rightarrow> ('v \<Rightarrow> bool) \<Rightarrow> py_error option \<Rightarrow> string option \<Rightarrow>
   'v Dir_context \<Rightarrow> bool \<times> 'v Dir_context \<times> py_error option" where
  "Dir_iterNext getattr callable err msg tc =
     (if err \<noteq> None \<or> msg \<noteq> None then (False, tc, err)
      else
        (let tc1 = tc\<lparr> dir_itemValue := None, dir_itemName := None \<rparr> in
         (case Dir_loop getattr callable (attrList tc1) (dir_size tc1) (dir_index tc1) err of
            (None, err') \<Rightarrow>
              (False,
               tc1\<lparr> dir_index := dir_size tc1, dir_itemValue := None \<rparr>,
               err')
          | (Some (i, attrName, v), err') \<Rightarrow>
              (True,
               tc1\<lparr> dir_itemName := Some attrName, dir_itemValue := Some v, dir_index := i + 1 + 1 \<rparr>,
               err'))))"

section \<open>The label pre-encoder\<close>

text \<open>
  What one \<^verbatim>\<open>JSON_EncodeObject(item, enc, labelBuffer, NPY_JSON_BUFSIZE)\<close> call leaves
  behind: failure (\<^verbatim>\<open>PyErr_Occurred() || enc->errorMsg\<close>), or the memory from the
  returned \<^verbatim>\<open>cLabel\<close> onwards together with the distance \<^verbatim>\<open>enc->offset - cLabel\<close>.
\<close>

datatype label_encoding = Encode_failed | Encoded string int

definition DQUOTE :: char where
  "DQUOTE = CHR 0x22"

definition NUL :: char where
  "NUL = CHR 0x00"

text \<open>
  Lines 1485--1503: the bytes of \<^verbatim>\<open>ret[i]\<close>, all \<^verbatim>\<open>len\<close> of them. \<open>cLabel\<close> is the
  memory from the pointer \<^verbatim>\<open>cLabel\<close> onwards; it holds at least the writer's terminator,
  so the empty list stands for no real buffer. \<^verbatim>\<open>memcpy\<close> with a negative count does
  not copy anything sensible; the count is then taken as 0.
\<close>

definition label_bytes :: "string \<Rightarrow> int \<Rightarrow> string" where
  "label_bytes cLabel off =
     (let need_quotes = (case cLabel of [] \<Rightarrow> True | c # _ \<Rightarrow> c \<noteq> DQUOTE);
          len = off + 1 + 2 * (if need_quotes then 1 else 0)
      in if need_quotes then
           [DQUOTE] @ take (nat (len - 4)) cLabel @ [DQUOTE] @ [CHR '':''] @ [NUL]
         else
           take (nat (len - 2)) cLabel @ [CHR '':''] @ [NUL])"

text \<open>
  The second \<^verbatim>\<open>for\<close> loop of \<^verbatim>\<open>NpyArr_encodeLabels\<close> (lines 1458--1505), from label \<open>i\<close>
  with the slices built so far. \<open>numeric\<close> is
  \<^verbatim>\<open>PyTypeNum_ISDATETIME(type_num) || PyTypeNum_ISNUMBER(type_num)\<close>; \<open>getitem\<close> answers
  \<open>None\<close> for \<^verbatim>\<open>NULL\<close>; \<open>encode staged x\<close> is the writer's call on the staged element
  or on the fetched item; \<open>alloc i\<close> tells whether \<^verbatim>\<open>PyObject_Malloc\<close> for \<^verbatim>\<open>ret[i]\<close>
  succeeds. The labels array is one-dimensional, so \<^verbatim>\<open>dataptr\<close> after \<open>i\<close> strides is at
  element \<open>i\<close>.
\<close>

function encodeLabels_loop ::
  "bool \<Rightarrow> ('l \<Rightarrow> 'l option) \<Rightarrow> (bool \<Rightarrow> 'l \<Rightarrow> label_encoding) \<Rightarrow> (nat \<Rightarrow> bool) \<Rightarrow>
   'l list \<Rightarrow> int \<Rightarrow> int \<Rightarrow> string list \<Rightarrow> string list option \<times> py_error option" where
  "encodeLabels_loop numeric getitem encode alloc items num i ret =
     (if i < num then
        (case (if numeric then Some (items ! nat i) else getitem (items ! nat i)) of
           None \<Rightarrow> (None, Some (Raised ''getitem''))
         | Some item \<Rightarrow>
            (case encode numeric item of
               Encode_failed \<Rightarrow> (None, Some (Raised ''JSON_EncodeObject''))
             | Encoded cLabel off \<Rightarrow>
                 if \<not> alloc (nat i) then (None, Some MemoryError)
                 else encodeLabels_loop numeric getitem encode alloc items num (i + 1)
                        (ret @ [label_bytes cLabel off])))
      else (Some ret, None))"
  by pat_completeness auto
termination
  by (relation "measure (\<lambda>(numeric, getitem, encode, alloc, items, num, i, ret). nat (num - i))") auto

text \<open>
  \<^verbatim>\<open>NpyArr_encodeLabels(labels, enc, num)\<close>: \<open>labels\<close> is \<open>None\<close> for a \<^verbatim>\<open>NULL\<close>
  array, else the elements of the array (\<^verbatim>\<open>PyArray_SIZE\<close> is their number); \<open>alloc_ret\<close>
  tells whether the allocation of \<^verbatim>\<open>ret\<close> succeeds. The result is the returned
  \<^verbatim>\<open>char **\<close> (\<open>None\<close> for 0) and the error this call raised.
\<close>

definition NpyArr_encodeLabels ::
  "bool \<Rightarrow> ('l \<Rightarrow> 'l option) \<Rightarrow> (bool \<Rightarrow> 'l \<Rightarrow> label_encoding) \<Rightarrow> bool \<Rightarrow> (nat \<Rightarrow> bool) \<Rightarrow>
   'l list option \<Rightarrow> int \<Rightarrow> string list option \<times> py_error option" where
  "NpyArr_encodeLabels numeric getitem encode alloc_ret alloc labels num =
     (case labels of
        None \<Rightarrow> (None, None)
      | Some items \<Rightarrow>
          if int (length items) < num then
            (None, Some (ValueError ''Label array sizes do not match corresponding data shape''))
          else if \<not> alloc_ret then (None, Some MemoryError)
          else encodeLabels_loop numeric getitem encode alloc items num 0 [])"

text \<open>\<^verbatim>\<open>strlen\<close> on a byte sequence that holds a terminator.\<close>

definition strlen :: "string \<Rightarrow> int" where
  "strlen bs = int (length (takeWhile (\<lambda>c. c \<noteq> NUL) bs))"

text \<open>
  \<^verbatim>\<open>DataFrame_iterGetName\<close>: the name handed to the writer, \<^verbatim>\<open>*outLen\<close> bytes from the
  returned pointer. \<open>None\<close> where the function writes before the start of the label or
  falls off its end without a \<^verbatim>\<open>return\<close>.
\<close>

definition DataFrame_iterGetName ::
  "PANDAS_FORMAT \<Rightarrow> string \<Rightarrow> string list \<Rightarrow> int \<Rightarrow> string option" where
  "DataFrame_iterGetName original cStr columnLabels idx =
     (if original = SPLIT then Some (take (nat (strlen cStr)) cStr)
      else if original = COLUMNS \<or> original = INDEX then
        (let index = idx - 1;
             label = columnLabels ! nat index;
             len = strlen label
         in if len - 3 < 0 then None
            else Some (take (nat (len - 3)) (drop 1 label)))
      else None)"


section \<open>The table driver\<close>

text \<open>
  The iterator function a type context currently points to with \<^verbatim>\<open>iterNext\<close>, for the
  drivers that exchange it while they run.
\<close>

datatype iter_fn =
    NpyArr_iterNext_fn
  | NpyArr_iterNextItem_fn
  | NpyArr_iterNextNone_fn
  | DataFrame_iterNext_fn

text \<open>
  The fields of \<^verbatim>\<open>TypeContext\<close> that \<^verbatim>\<open>DataFrame_iterBegin\<close> and
  \<^verbatim>\<open>DataFrame_iterEnd\<close> touch. \<^verbatim>\<open>frame\<close> is \<open>None\<close> while the pointer is \<^verbatim>\<open>NULL\<close>,
  else it holds \<^verbatim>\<open>frame->iterable\<close>.
\<close>

record 'it DataFrame_context =
  df_index :: int
  df_cStr :: "string option"
  df_frame :: "'it option"
  df_iterNext :: iter_fn

text \<open>
  \<^verbatim>\<open>DataFrame_iterBegin\<close>. \<open>malloc_cStr\<close> is the block \<^verbatim>\<open>PyObject_Malloc(20)\<close> answers
  (\<open>None\<close> for \<^verbatim>\<open>NULL\<close>), \<open>call_method m\<close> is \<^verbatim>\<open>PyObject_CallMethod(obj, m, NULL)\<close>
  (\<open>None\<close> when it raised), \<open>malloc_frame\<close> tells whether the allocation of the
  \<^verbatim>\<open>PdFrameContext\<close> succeeds. The third component is the error raised here, if any.
\<close>

definition DataFrame_iterBegin ::
  "string option \<Rightarrow> (string \<Rightarrow> 'it option) \<Rightarrow> bool \<Rightarrow> PyObjectEncoder \<Rightarrow> 'it DataFrame_context \<Rightarrow>
   PyObjectEncoder \<times> 'it DataFrame_context \<times> py_error option" where
  "DataFrame_iterBegin malloc_cStr call_method malloc_frame enc0 tc0 =
     (let enc = enc0\<lparr> originalOutputFormat := outputFormat enc0 \<rparr>;
          tc = tc0\<lparr> df_index := 0 \<rparr>
      in if outputFormat enc = SPLIT then
           (enc\<lparr> outputFormat := VALUES \<rparr>, tc\<lparr> df_cStr := malloc_cStr \<rparr>,
            if malloc_cStr = None then Some MemoryError else None)
         else
           (let method = (if outputFormat enc = COLUMNS then ''items'' else ''iterrows'') in
            case call_method method of
              None \<Rightarrow> (enc, tc, Some (Raised method))
            | Some iter \<Rightarrow>
                if \<not> malloc_frame then
                  (enc, tc\<lparr> df_iterNext := NpyArr_iterNextNone_fn \<rparr>, Some MemoryError)
                else
                  (if outputFormat enc = RECORDS then enc\<lparr> outputFormat := INDEX \<rparr> else enc,
                   tc\<lparr> df_frame := Some iter \<rparr>, None)))"

text \<open>
  \<^verbatim>\<open>DataFrame_iterEnd\<close>. Outside the split form it releases \<^verbatim>\<open>frame->iterable\<close>, which
  dereferences \<^verbatim>\<open>frame\<close>.
\<close>

definition DataFrame_iterEnd ::
  "PyObjectEncoder \<Rightarrow> 'it DataFrame_context \<Rightarrow> py_error + PyObjectEncoder" where
  "DataFrame_iterEnd enc tc =
     (if originalOutputFormat enc \<noteq> SPLIT \<and> df_frame tc = None then Inl NullDereference
      else Inr (enc\<lparr> outputFormat := originalOutputFormat enc \<rparr>))"


section \<open>The type dispatcher\<close>

text \<open>\<^verbatim>\<open>enum JSTYPES\<close> of the writer's header.\<close>

datatype JSTYPES =
    JT_NULL | JT_TRUE | JT_FALSE | JT_INT | JT_LONG | JT_DOUBLE | JT_UTF8
  | JT_ARRAY | JT_OBJECT | JT_INVALID

text \<open>
  A numpy array as the accessors present it: \<^verbatim>\<open>PyArray_DATA\<close> is the address of the
  first element, \<^verbatim>\<open>PyArray_DIM(a, i)\<close> and \<^verbatim>\<open>PyArray_STRIDE(a, i)\<close> read the \<open>i\<close>-th
  entry of the shape and stride vectors. Reading outside the vectors is undefined in C
  and \<open>None\<close> here.
\<close>

record PyArrayObject =
  PyArray_DATA :: int
  PyArray_DIMS :: "int list"
  PyArray_STRIDES :: "int list"
  PyArray_TYPE :: int

definition PyArray_NDIM :: "PyArrayObject \<Rightarrow> int" where
  "PyArray_NDIM a = int (length (PyArray_DIMS a))"

definition PyArray_DIM :: "PyArrayObject \<Rightarrow> int \<Rightarrow> int option" where
  "PyArray_DIM a i =
     (if 0 \<le> i \<and> i < int (length (PyArray_DIMS a)) then Some (PyArray_DIMS a ! nat i) else None)"

definition PyArray_STRIDE :: "PyArrayObject \<Rightarrow> int \<Rightarrow> int option" where
  "PyArray_STRIDE a i =
     (if 0 \<le> i \<and> i < int (length (PyArray_STRIDES a)) then Some (PyArray_STRIDES a ! nat i)
      else None)"

text \<open>
  The Python values that the dispatcher tells apart before it reaches the labelled
  containers, each with what the dispatcher reads from it:
  \<^item> \<open>PyFloat b\<close>: \<open>b\<close> is \<^verbatim>\<open>npy_isnan(val) || npy_isinf(val)\<close>;
  \<^item> \<open>PyDateTime b\<close> (a datetime or a date): \<open>b\<close> is \<^verbatim>\<open>PyObject_TypeCheck(obj, cls_nat)\<close>;
  \<^item> \<open>NpyDatetimeScalar v\<close>: \<open>v\<close> is \<^verbatim>\<open>obval\<close>;
  \<^item> \<open>PyDelta v ns\<close>: \<open>v\<close> is the \<^verbatim>\<open>value\<close> attribute when the object has one, \<open>ns\<close>
    is \<^verbatim>\<open>total_seconds(obj) * 1000000000LL\<close> converted to \<^verbatim>\<open>npy_int64\<close>;
  \<^item> \<open>NpyIntegerScalar v ovf\<close>: \<open>v\<close> is what \<^verbatim>\<open>PyArray_CastScalarToCtype\<close> stores,
    \<open>ovf\<close> whether it raised \<^verbatim>\<open>OverflowError\<close>;
  \<^item> \<open>PyArray0d\<close>: an array for which \<^verbatim>\<open>PyArray_CheckScalar\<close> holds;
  \<^item> \<open>PyArray a\<close>: an array of one or more dimensions that is not an Index or Series.
\<close>

datatype pyobj =
    PyBool bool
  | Py_None
  | PyLong int
  | PyFloat bool
  | PyBytes string
  | PyUnicode string
  | PyDecimal
  | PyDateTime bool
  | PyTime
  | NpyDatetimeScalar "64 word"
  | PyDelta "int option" "64 word"
  | NpyIntegerScalar "64 word" bool
  | NpyBoolScalar bool
  | NpyFloatScalar
  | PyArray0d
  | PyArray PyArrayObject

datatype PFN_PyTypeToJSON =
    CDouble | CLong | PyLongToINT64 | NpyFloatToDOUBLE | PyFloatToDOUBLE
  | PyStringToUTF8 | PyUnicodeToUTF8 | PyDateTimeToJSON | NpyDateTimeScalarToJSON
  | NpyDatetime64ToJSON | PyTimeToJSON

text \<open>The two sets of iterator callbacks that the dispatcher installs for a plain array.\<close>

datatype npy_driver = NpyArr_driver | NpyArrPassThru_driver

datatype prv_ptr = prv_NULL | prv_basicTypeContext | prv_created

text \<open>
  \<^verbatim>\<open>JSONTypeContext\<close> with the fields of the \<^verbatim>\<open>TypeContext\<close> behind \<^verbatim>\<open>prv\<close> that the
  scalar branches set.
\<close>

record JSONTypeContext =
  jt_type :: JSTYPES
  prv :: prv_ptr
  PyTypeToJSON :: "PFN_PyTypeToJSON option"
  longValue :: "64 word"
  iter_driver :: "npy_driver option"

text \<open>
  An array element as the casts of \<^verbatim>\<open>NpyTypeToJSONType\<close> read it from memory: whether
  its \<^verbatim>\<open>double\<close> value is nan or infinite, its \<^verbatim>\<open>npy_int64\<close> value, and whether its
  first byte equals \<^verbatim>\<open>NPY_TRUE\<close>.
\<close>

record element =
  as_double_nan_or_inf :: bool
  as_int64 :: "64 word"
  as_bool :: bool

text \<open>The type-number tests of the numpy headers, taken as parameters.\<close>

record numpy_macros =
  PyTypeNum_ISFLOAT :: "int \<Rightarrow> bool"
  PyTypeNum_ISDATETIME :: "int \<Rightarrow> bool"
  PyTypeNum_ISINTEGER :: "int \<Rightarrow> bool"
  PyTypeNum_ISBOOL :: "int \<Rightarrow> bool"

text \<open>\<^verbatim>\<open>npy_int64 get_nat(void) { return NPY_MIN_INT64; }\<close>\<close>

definition get_nat :: "64 word" where
  "get_nat = word_of_int (- (2 ^ 63))"

text \<open>
  \<^verbatim>\<open>NpyTypeToJSONType\<close>. \<open>mem\<close> is the memory, \<open>isoDates\<close> the encoder's \<^verbatim>\<open>datetimeIso\<close>,
  \<open>v\<close> the address \<^verbatim>\<open>value\<close>. The cast functions of the built-in types are taken to
  exist.
\<close>

definition NpyTypeToJSONType ::
  "numpy_macros \<Rightarrow> (int \<Rightarrow> element) \<Rightarrow> bool \<Rightarrow> int \<Rightarrow> int \<Rightarrow> JSONTypeContext \<Rightarrow> JSONTypeContext" where
  "NpyTypeToJSONType np mem isoDates t v tc =
     (if PyTypeNum_ISFLOAT np t then
        (if as_double_nan_or_inf (mem v) then tc\<lparr> jt_type := JT_NULL \<rparr>
         else tc\<lparr> PyTypeToJSON := Some CDouble, jt_type := JT_DOUBLE \<rparr>)
      else if PyTypeNum_ISDATETIME np t then
        (let longVal = as_int64 (mem v) in
         if longVal = get_nat then tc\<lparr> jt_type := JT_NULL \<rparr>
         else tc\<lparr> longValue := longVal, PyTypeToJSON := Some NpyDatetime64ToJSON,
                  jt_type := (if isoDates then JT_UTF8 else JT_LONG) \<rparr>)
      else if PyTypeNum_ISINTEGER np t then
        tc\<lparr> longValue := as_int64 (mem v), PyTypeToJSON := Some CLong, jt_type := JT_LONG \<rparr>
      else if PyTypeNum_ISBOOL np t then
        tc\<lparr> jt_type := (if as_bool (mem v) then JT_TRUE else JT_FALSE) \<rparr>
      else tc\<lparr> jt_type := JT_INVALID \<rparr>)"

text \<open>
  \<^verbatim>\<open>PyLong_AsLongLong\<close> on a Python integer: outside the range of \<^verbatim>\<open>long long\<close> it
  answers -1 and raises \<^verbatim>\<open>OverflowError\<close>.
\<close>

definition PyLong_AsLongLong :: "int \<Rightarrow> py_error option \<Rightarrow> 64 word \<times> py_error option" where
  "PyLong_AsLongLong v err =
     (if - (2 ^ 63) \<le> v \<and> v < 2 ^ 63 then (word_of_int v, err)
      else (- 1, Some (OverflowError ''int too big to convert'')))"

definition is_OverflowError :: "py_error option \<Rightarrow> bool" where
  "is_OverflowError err = (case err of Some (OverflowError m) \<Rightarrow> True | _ \<Rightarrow> False)"

text \<open>Division of an \<^verbatim>\<open>npy_int64\<close> by a positive constant, truncating towards zero.\<close>

definition int64_div :: "64 word \<Rightarrow> int \<Rightarrow> 64 word" where
  "int64_div a b = word_of_int (sint a sdiv b)"

text \<open>
  \<^verbatim>\<open>Object_beginTypeContext\<close> on the values of \<open>pyobj\<close>. Parameters for what lies
  outside this file: \<open>malloc_ok\<close> tells whether \<^verbatim>\<open>createTypeContext\<close> gets its memory,
  \<open>handler err\<close> is the error indicator after \<^verbatim>\<open>Object_invokeDefaultHandler\<close> has run,
  \<open>labelled\<close> tells whether the strider behind \<^verbatim>\<open>npyCtxtPassthru\<close> has column labels.
  \<open>err\<close> is the error indicator on entry; the result is the type context, the encoder
  and the error indicator on return.
\<close>

definition Object_beginTypeContext ::
  "numpy_macros \<Rightarrow> (int \<Rightarrow> element) \<Rightarrow> bool \<Rightarrow> (py_error option \<Rightarrow> py_error option) \<Rightarrow> bool \<Rightarrow>
   PyObjectEncoder \<Rightarrow> py_error option \<Rightarrow> pyobj option \<Rightarrow>
   JSONTypeContext \<times> PyObjectEncoder \<times> py_error option" where
  "Object_beginTypeContext np mem malloc_ok handler labelled enc err obj0 =
    (let tc0 = \<lparr> jt_type = JT_INVALID, prv = prv_NULL, PyTypeToJSON = None, longValue = 0,
                 iter_driver = None \<rparr>;
         pc = tc0\<lparr> prv := prv_created \<rparr>;
         created = (\<lambda>r. if malloc_ok then r else (tc0, enc, Some MemoryError))
     in case obj0 of
          None \<Rightarrow> (tc0, enc, err)
        | Some obj \<Rightarrow>
           if npyType enc \<ge> 0 then
             (let tc1 = NpyTypeToJSONType np mem (datetimeIso enc) (npyType enc) (npyValue enc)
                          (tc0\<lparr> prv := prv_basicTypeContext \<rparr>);
                  err1 = (if jt_type tc1 = JT_INVALID then
                            (if defaultHandler enc then handler err
                             else Some (RuntimeError ''Unhandled numpy dtype''))
                          else err)
              in (tc1, enc\<lparr> npyCtxtPassthru := False, npyType := - 1 \<rparr>, err1))
           else
             (case obj of
                PyBool b \<Rightarrow> (tc0\<lparr> jt_type := (if b then JT_TRUE else JT_FALSE) \<rparr>, enc, err)
              | Py_None \<Rightarrow> (tc0\<lparr> jt_type := JT_NULL \<rparr>, enc, err)
              | PyLong v \<Rightarrow> created
                  (let (lv, err1) = PyLong_AsLongLong v err in
                   if is_OverflowError err1 then (tc0, enc, err1)
                   else (pc\<lparr> PyTypeToJSON := Some PyLongToINT64, jt_type := JT_LONG,
                            longValue := lv \<rparr>, enc, err1))
              | PyFloat special \<Rightarrow> created
                  (if special then (pc\<lparr> jt_type := JT_NULL \<rparr>, enc, err)
                   else (pc\<lparr> PyTypeToJSON := Some PyFloatToDOUBLE, jt_type := JT_DOUBLE \<rparr>, enc, err))
              | PyBytes b \<Rightarrow> created
                  (pc\<lparr> PyTypeToJSON := Some PyStringToUTF8, jt_type := JT_UTF8 \<rparr>, enc, err)
              | PyUnicode u \<Rightarrow> created
                  (pc\<lparr> PyTypeToJSON := Some PyUnicodeToUTF8, jt_type := JT_UTF8 \<rparr>, enc, err)
              | PyDecimal \<Rightarrow> created
                  (pc\<lparr> PyTypeToJSON := Some PyFloatToDOUBLE, jt_type := JT_DOUBLE \<rparr>, enc, err)
              | PyDateTime is_nat \<Rightarrow> created
                  (if is_nat then (pc\<lparr> jt_type := JT_NULL \<rparr>, enc, err)
                   else (pc\<lparr> PyTypeToJSON := Some PyDateTimeToJSON,
                            jt_type := (if datetimeIso enc then JT_UTF8 else JT_LONG) \<rparr>, enc, err))
              | PyTime \<Rightarrow> created
                  (pc\<lparr> PyTypeToJSON := Some PyTimeToJSON, jt_type := JT_UTF8 \<rparr>, enc, err)
              | NpyDatetimeScalar obval \<Rightarrow> created
                  (if obval = get_nat then (pc\<lparr> jt_type := JT_NULL \<rparr>, enc, err)
                   else (pc\<lparr> PyTypeToJSON := Some NpyDateTimeScalarToJSON,
                            jt_type := (if datetimeIso enc then JT_UTF8 else JT_LONG) \<rparr>, enc, err))
              | PyDelta value_attr total_ns \<Rightarrow> created
                  (let (value0, err1) =
                         (case value_attr of
                            Some v \<Rightarrow> PyLong_AsLongLong v err
                          | None \<Rightarrow> (total_ns, err));
                       val = (case datetimeUnit enc of
                                NPY_FR_ns \<Rightarrow> value0
                              | NPY_FR_us \<Rightarrow> int64_div value0 1000
                              | NPY_FR_ms \<Rightarrow> int64_div value0 1000000
                              | NPY_FR_s \<Rightarrow> int64_div value0 1000000000)
                   in if is_OverflowError err1 then (tc0, enc, err1)
                      else if val = get_nat then (pc\<lparr> jt_type := JT_NULL \<rparr>, enc, err1)
                      else (pc\<lparr> longValue := val, PyTypeToJSON := Some PyLongToINT64,
                               jt_type := JT_LONG \<rparr>, enc, err1))
              | NpyIntegerScalar v ovf \<Rightarrow> created
                  (let err1 = (if ovf then Some (OverflowError ''cast'') else err) in
                   if is_OverflowError err1 then (tc0, enc, err1)
                   else (pc\<lparr> PyTypeToJSON := Some PyLongToINT64, jt_type := JT_LONG,
                            longValue := v \<rparr>, enc, err1))
              | NpyBoolScalar b \<Rightarrow> created
                  (pc\<lparr> longValue := (if b then 1 else 0),
                       jt_type := (if b then JT_TRUE else JT_FALSE) \<rparr>, enc, err)
              | NpyFloatScalar \<Rightarrow> created
                  (pc\<lparr> PyTypeToJSON := Some NpyFloatToDOUBLE, jt_type := JT_DOUBLE \<rparr>, enc, err)
              | PyArray0d \<Rightarrow> created
                  (tc0, enc, Some (TypeError ''(0d array) is not JSON serializable at the moment''))
              | PyArray a \<Rightarrow> created
                  (if npyCtxtPassthru enc then
                     (pc\<lparr> jt_type := (if labelled then JT_OBJECT else JT_ARRAY),
                          iter_driver := Some NpyArrPassThru_driver \<rparr>,
                      enc\<lparr> npyCtxtPassthru := False \<rparr>, err)
                   else
                     (pc\<lparr> jt_type := JT_ARRAY, iter_driver := Some NpyArr_driver \<rparr>, enc, err))))"


section \<open>The numeric-array strider\<close>

text \<open>
  \<^verbatim>\<open>NpyArrContext\<close>. \<^verbatim>\<open>index\<close> is the array \<^verbatim>\<open>npy_intp index[NPY_MAXDIMS]\<close>, read and
  written by position. The \<^verbatim>\<open>getitem\<close> function pointer is a parameter of the functions
  that call it.
\<close>

record NpyArrContext =
  array :: PyArrayObject
  dataptr :: int
  curdim :: int
  stridedim :: int
  inc :: int
  dim :: int
  stride :: int
  ndim :: int
  index :: "int \<Rightarrow> int"
  type_num :: int
  rowLabels :: "string list option"
  columnLabels :: "string list option"

datatype iter_end_fn = NpyArr_iterEnd_fn | NpyArrPassThru_iterEnd_fn

text \<open>
  The fields of \<^verbatim>\<open>TypeContext\<close> that the array driver uses. Every type context of one
  walk points to the same \<^verbatim>\<open>NpyArrContext\<close>, which the functions below take and return
  beside the type context.
\<close>

record NpyArr_context =
  iterNext :: iter_fn
  iterEnd :: iter_end_fn
  itemValue :: "pyobj option"
  transpose :: bool
  tc_rowLabels :: "string list option"
  tc_columnLabels :: "string list option"

text \<open>
  \<^verbatim>\<open>NpyArr_iterBegin\<close> on the array \<open>a\<close> (\<^verbatim>\<open>newObj\<close> when set, else the object itself).
  \<open>malloc\<close> is \<open>None\<close> when \<^verbatim>\<open>PyObject_Malloc\<close> fails, else the content that the fresh
  block happens to have in its \<^verbatim>\<open>index\<close> array; every other field is assigned. The
  outer \<open>None\<close> is a read outside the shape or stride vector.
\<close>

definition NpyArr_iterBegin ::
  "(int \<Rightarrow> int) option \<Rightarrow> PyArrayObject \<Rightarrow> NpyArr_context \<Rightarrow>
   (NpyArr_context \<times> NpyArrContext option \<times> py_error option) option" where
  "NpyArr_iterBegin malloc a tc =
     (case malloc of
        None \<Rightarrow> Some (tc\<lparr> iterNext := NpyArr_iterNextNone_fn \<rparr>, None, Some MemoryError)
      | Some garbage \<Rightarrow>
          (let nd = PyArray_NDIM a - 1;
               first = (if transpose tc then nd else 0)
           in case (PyArray_DIM a first, PyArray_STRIDE a first) of
                (Some d, Some s) \<Rightarrow>
                  Some (tc,
                        Some \<lparr> array = a, dataptr = PyArray_DATA a, curdim = 0,
                               stridedim = first, inc = (if transpose tc then - 1 else 1),
                               dim = d, stride = s, ndim = nd,
                               index = garbage(first := 0), type_num = PyArray_TYPE a,
                               rowLabels = tc_rowLabels tc, columnLabels = tc_columnLabels tc \<rparr>,
                        None)
              | _ \<Rightarrow> None))"

text \<open>
  \<^verbatim>\<open>NpyArr_freeItemValue\<close>, with the strider present: the item is released unless it is
  the array itself.
\<close>

definition NpyArr_freeItemValue :: "NpyArrContext \<Rightarrow> NpyArr_context \<Rightarrow> NpyArr_context" where
  "NpyArr_freeItemValue npyarr tc =
     (if itemValue tc \<noteq> Some (PyArray (array npyarr)) then tc\<lparr> itemValue := None \<rparr> else tc)"

text \<open>
  \<^verbatim>\<open>NpyArrPassThru_iterEnd\<close>: one level is popped. \<open>None\<close> is a read outside the shape or
  stride vector.
\<close>

definition NpyArrPassThru_iterEnd ::
  "NpyArr_context \<Rightarrow> NpyArrContext \<Rightarrow> (NpyArr_context \<times> NpyArrContext) option" where
  "NpyArrPassThru_iterEnd tc npyarr0 =
     (let npyarr1 = npyarr0\<lparr> curdim := curdim npyarr0 - 1 \<rparr>;
          npyarr2 = npyarr1\<lparr> dataptr := dataptr npyarr1 - stride npyarr1 * index npyarr1 (stridedim npyarr1) \<rparr>;
          npyarr3 = npyarr2\<lparr> stridedim := stridedim npyarr2 - inc npyarr2 \<rparr>
      in case (PyArray_DIM (array npyarr3) (stridedim npyarr3),
               PyArray_STRIDE (array npyarr3) (stridedim npyarr3)) of
           (Some d, Some s) \<Rightarrow>
             (let npyarr4 = npyarr3\<lparr> dim := d, stride := s \<rparr>;
                  npyarr5 = npyarr4\<lparr> dataptr := dataptr npyarr4 + stride npyarr4 \<rparr>
              in Some (NpyArr_freeItemValue npyarr5 tc, npyarr5))
         | _ \<Rightarrow> None)"

text \<open>
  \<^verbatim>\<open>NpyArr_iterNextItem\<close>, the leaf phase. \<open>np\<close> holds the type tests, \<open>getitem p\<close> is
  \<^verbatim>\<open>npyarr->getitem(p, npyarr->array)\<close> (\<open>None\<close> when it answers \<^verbatim>\<open>NULL\<close>, having raised),
  \<open>obj\<close> is the object being iterated. The result is the return value, the type
  context, the strider, the encoder and the error indicator.
\<close>

definition NpyArr_iterNextItem ::
  "numpy_macros \<Rightarrow> (int \<Rightarrow> pyobj option) \<Rightarrow> pyobj \<Rightarrow> NpyArr_context \<Rightarrow> NpyArrContext \<Rightarrow>
   PyObjectEncoder \<Rightarrow> py_error option \<Rightarrow>
   bool \<times> NpyArr_context \<times> NpyArrContext \<times> PyObjectEncoder \<times> py_error option" where
  "NpyArr_iterNextItem np getitem obj tc npyarr enc err =
     (if err \<noteq> None then (False, tc, npyarr, enc, err)
      else if index npyarr (stridedim npyarr) \<ge> dim npyarr then (False, tc, npyarr, enc, err)
      else
        (let tc1 = NpyArr_freeItemValue npyarr tc;
             (tc2, enc2, err2) =
               (if PyTypeNum_ISDATETIME np (PyArray_TYPE (array npyarr)) then
                  (tc1\<lparr> itemValue := Some obj \<rparr>,
                   enc\<lparr> npyType := PyArray_TYPE (array npyarr), npyValue := dataptr npyarr,
                        npyCtxtPassthru := True \<rparr>,
                   err)
                else
                  (tc1\<lparr> itemValue := getitem (dataptr npyarr) \<rparr>, enc,
                   if getitem (dataptr npyarr) = None then Some (Raised ''getitem'') else err));
             npyarr1 = npyarr\<lparr> dataptr := dataptr npyarr + stride npyarr \<rparr>;
             npyarr2 = npyarr1\<lparr> index := (index npyarr1)
                          (stridedim npyarr1 := index npyarr1 (stridedim npyarr1) + 1) \<rparr>
         in (True, tc2, npyarr2, enc2, err2)))"

text \<open>
  \<^verbatim>\<open>NpyArr_iterNext\<close>, the descent phase, which hands over to the leaf phase at the
  innermost dimension. \<open>None\<close> is a read outside the shape or stride vector.
\<close>

definition NpyArr_iterNext ::
  "numpy_macros \<Rightarrow> (int \<Rightarrow> pyobj option) \<Rightarrow> pyobj \<Rightarrow> NpyArr_context \<Rightarrow> NpyArrContext \<Rightarrow>
   PyObjectEncoder \<Rightarrow> py_error option \<Rightarrow>
   (bool \<times> NpyArr_context \<times> NpyArrContext \<times> PyObjectEncoder \<times> py_error option) option" where
  "NpyArr_iterNext np getitem obj tc npyarr enc err =
     (if err \<noteq> None then Some (False, tc, npyarr, enc, err)
      else if curdim npyarr \<ge> ndim npyarr \<or> index npyarr (stridedim npyarr) \<ge> dim npyarr then
        Some (NpyArr_iterNextItem np getitem obj (tc\<lparr> iterNext := NpyArr_iterNextItem_fn \<rparr>)
                npyarr enc err)
      else
        (let npyarr1 = npyarr\<lparr> index := (index npyarr)
                          (stridedim npyarr := index npyarr (stridedim npyarr) + 1) \<rparr>;
             npyarr2 = npyarr1\<lparr> curdim := curdim npyarr1 + 1 \<rparr>;
             npyarr3 = npyarr2\<lparr> stridedim := stridedim npyarr2 + inc npyarr2 \<rparr>
         in case (PyArray_DIM (array npyarr3) (stridedim npyarr3),
                  PyArray_STRIDE (array npyarr3) (stridedim npyarr3)) of
              (Some d, Some s) \<Rightarrow>
                (let npyarr4 = npyarr3\<lparr> dim := d, stride := s \<rparr>;
                     npyarr5 = npyarr4\<lparr> index := (index npyarr4)(stridedim npyarr4 := 0) \<rparr>
                 in Some (True, tc\<lparr> itemValue := Some (PyArray (array npyarr5)) \<rparr>, npyarr5,
                          enc\<lparr> npyCtxtPassthru := True \<rparr>, err))
            | _ \<Rightarrow> None))"

text \<open>
  \<^verbatim>\<open>Object_iterNext\<close> for a type context of the array driver: the call through the
  \<^verbatim>\<open>iterNext\<close> pointer. The table driver's function does not belong to this driver.
\<close>

definition Object_iterNext ::
  "numpy_macros \<Rightarrow> (int \<Rightarrow> pyobj option) \<Rightarrow> pyobj \<Rightarrow> NpyArr_context \<Rightarrow> NpyArrContext \<Rightarrow>
   PyObjectEncoder \<Rightarrow> py_error option \<Rightarrow>
   (bool \<times> NpyArr_context \<times> NpyArrContext \<times> PyObjectEncoder \<times> py_error option) option" where
  "Object_iterNext np getitem obj tc npyarr enc err =
     (case iterNext tc of
        NpyArr_iterNext_fn \<Rightarrow> NpyArr_iterNext np getitem obj tc npyarr enc err
      | NpyArr_iterNextItem_fn \<Rightarrow> Some (NpyArr_iterNextItem np getitem obj tc npyarr enc err)
      | NpyArr_iterNextNone_fn \<Rightarrow> Some (False, tc, npyarr, enc, err)
      | DataFrame_iterNext_fn \<Rightarrow> None)"

subsection \<open>The writer's loop over an array\<close>

text \<open>
  The state of one walk: the strider, the encoder, the error indicator, the open type
  contexts (innermost first) and the number of \<^verbatim>\<open>iterNext\<close> calls that the leaf phase
  answered with 1.
\<close>

record walker =
  strider :: NpyArrContext
  encoder :: PyObjectEncoder
  pyerr :: "py_error option"
  contexts :: "NpyArr_context list"
  leaves :: nat

text \<open>
  Modelled from the spec: the writer's container loop (the writer's source is not among
  the files). The spec's protocol is: \<open>next\<close> returns truthy while more items exist, the
  writer then calls get-value and recurses into the child through the dispatcher; when
  \<open>next\<close> returns false the writer calls \<open>end\<close>. One step of the walk is one \<^verbatim>\<open>iterNext\<close>
  call on the innermost open context together with what follows it at once: the
  dispatch of the child (a pass-through child opens a context of its own, a scalar child
  is finished on the spot), or the \<^verbatim>\<open>iterEnd\<close> call of the context. \<open>None\<close> is undefined
  behaviour, or a child array that starts a strider of its own. A walk with no open
  context has finished and stays as it is.
\<close>

definition walk_step ::
  "numpy_macros \<Rightarrow> (int \<Rightarrow> element) \<Rightarrow> (int \<Rightarrow> pyobj option) \<Rightarrow> bool \<Rightarrow>
   (py_error option \<Rightarrow> py_error option) \<Rightarrow> walker \<Rightarrow> walker option" where
  "walk_step np mem getitem malloc_ok handler w =
     (case contexts w of
        [] \<Rightarrow> Some w
      | tc # outer \<Rightarrow>
         (case Object_iterNext np getitem (PyArray (array (strider w))) tc (strider w)
                 (encoder w) (pyerr w) of
            None \<Rightarrow> None
          | Some (has_next, tc1, npyarr1, enc1, err1) \<Rightarrow>
              if has_next then
                (let (jtc, enc2, err2) =
                        Object_beginTypeContext np mem malloc_ok handler
                          (columnLabels npyarr1 \<noteq> None) enc1 err1 (itemValue tc1);
                     n = (if iterNext tc1 = NpyArr_iterNextItem_fn then leaves w + 1 else leaves w)
                 in case iter_driver jtc of
                      Some NpyArrPassThru_driver \<Rightarrow>
                        Some (w\<lparr> strider := npyarr1, encoder := enc2, pyerr := err2,
                                 contexts :=
                                   \<lparr> iterNext = NpyArr_iterNext_fn,
                                     iterEnd = NpyArrPassThru_iterEnd_fn,
                                     itemValue = None, transpose = False,
                                     tc_rowLabels = None, tc_columnLabels = None \<rparr>
                                   # tc1 # outer,
                                 leaves := n \<rparr>)
                    | Some NpyArr_driver \<Rightarrow> None
                    | None \<Rightarrow>
                        Some (w\<lparr> strider := npyarr1, encoder := enc2, pyerr := err2,
                                 contexts := tc1 # outer, leaves := n \<rparr>))
              else
                (case iterEnd tc1 of
                   NpyArrPassThru_iterEnd_fn \<Rightarrow>
                     (case NpyArrPassThru_iterEnd tc1 npyarr1 of
                        None \<Rightarrow> None
                      | Some (tc2, npyarr2) \<Rightarrow>
                          Some (w\<lparr> strider := npyarr2, encoder := enc1, pyerr := err1,
                                   contexts := outer \<rparr>))
                 | NpyArr_iterEnd_fn \<Rightarrow>
                     Some (w\<lparr> strider := npyarr1, encoder := enc1, pyerr := err1,
                              contexts := outer \<rparr>))))"

fun walk_run ::
  "numpy_macros \<Rightarrow> (int \<Rightarrow> element) \<Rightarrow> (int \<Rightarrow> pyobj option) \<Rightarrow> bool \<Rightarrow>
   (py_error option \<Rightarrow> py_error option) \<Rightarrow> nat \<Rightarrow> walker \<Rightarrow> walker option" where
  "walk_run np mem getitem malloc_ok handler 0 w = Some w"
| "walk_run np mem getitem malloc_ok handler (Suc n) w =
     (case walk_step np mem getitem malloc_ok handler w of
        None \<Rightarrow> None
      | Some w' \<Rightarrow> walk_run np mem getitem malloc_ok handler n w')"

text \<open>
  The walk after \<^verbatim>\<open>iterBegin\<close> of the outermost context, which the dispatcher has given
  the callbacks of \<^verbatim>\<open>NpyArr_driver\<close>: \<open>garbage\<close> is the content of the fresh strider's
  \<^verbatim>\<open>index\<close> array, \<open>tr\<close> the \<^verbatim>\<open>transpose\<close> flag of the context. No element is staged
  and no strider is passed through when the walk starts.
\<close>

definition walk_begin ::
  "(int \<Rightarrow> int) \<Rightarrow> PyArrayObject \<Rightarrow> bool \<Rightarrow> PyObjectEncoder \<Rightarrow> walker option" where
  "walk_begin garbage a tr enc =
     (case NpyArr_iterBegin (Some garbage) a
             \<lparr> iterNext = NpyArr_iterNext_fn, iterEnd = NpyArr_iterEnd_fn, itemValue = None,
               transpose = tr, tc_rowLabels = None, tc_columnLabels = None \<rparr> of
        Some (tc, Some npyarr, err) \<Rightarrow>
          Some \<lparr> strider = npyarr, encoder = enc\<lparr> npyCtxtPassthru := False, npyType := - 1 \<rparr>,
                 pyerr = err, contexts = [tc], leaves = 0 \<rparr>
      | _ \<Rightarrow> None)"

subsection \<open>Positions of a walk\<close>

text \<open>
  The formula of the specification for the data pointer of a strider: the distance from
  the base is the sum over all axes of stride times index.
\<close>

definition spec_offset :: "NpyArrContext \<Rightarrow> int" where
  "spec_offset n =
     (\<Sum>i\<leftarrow>[0..<length (PyArray_DIMS (array n))].
        PyArray_STRIDES (array n) ! i * index n (int i))"

text \<open>The axis, the size and the stride that belong to depth \<open>j\<close> of a walk.\<close>

definition depth_axis :: "PyArrayObject \<Rightarrow> bool \<Rightarrow> nat \<Rightarrow> int" where
  "depth_axis a tr j = (if tr then PyArray_NDIM a - 1 - int j else int j)"

definition depth_dims :: "PyArrayObject \<Rightarrow> bool \<Rightarrow> int list" where
  "depth_dims a tr = (if tr then rev (PyArray_DIMS a) else PyArray_DIMS a)"

definition depth_strides :: "PyArrayObject \<Rightarrow> bool \<Rightarrow> int list" where
  "depth_strides a tr = (if tr then rev (PyArray_STRIDES a) else PyArray_STRIDES a)"

text \<open>
  The distance from the base that the walk keeps at depth \<open>c\<close> with the index vector
  \<open>ix\<close>, read from the strides of the array \<open>a\<close>: an axis that the walk has descended
  through counts with its index less one (its index was advanced at the descent, its
  stride is added at the pop), the stride axis of depth \<open>c\<close> counts with its index, the
  axes below do not count.
\<close>

definition walked_offset :: "PyArrayObject \<Rightarrow> bool \<Rightarrow> nat \<Rightarrow> (int \<Rightarrow> int) \<Rightarrow> int" where
  "walked_offset a tr c ix =
     (\<Sum>j\<leftarrow>[0..<c]. PyArray_STRIDES a ! nat (depth_axis a tr j) * (ix (depth_axis a tr j) - 1))
     + PyArray_STRIDES a ! nat (depth_axis a tr c) * ix (depth_axis a tr c)"

text \<open>
  The number of steps that a walk spends on levels of the given sizes, outermost first:
  at the innermost level one step per element and one for the end, further out one
  step for each descent besides the steps of the level below, and one for the end.
\<close>

fun walk_cost :: "int list \<Rightarrow> int" where
  "walk_cost [] = 0"
| "walk_cost (d # ds) = d * (if ds = [] then 1 else 1 + walk_cost ds) + 1"

definition elem_cost :: "int list \<Rightarrow> int" where
  "elem_cost ds = (if ds = [] then 1 else 1 + walk_cost ds)"

text \<open>
  What the walk has done and has left to do at depth \<open>c\<close> with the index vector \<open>ix\<close>:
  the distance of the data pointer from the base contributed by the levels above, the
  leaves emitted, and the steps left.
\<close>

definition offset_above :: "PyArrayObject \<Rightarrow> bool \<Rightarrow> nat \<Rightarrow> (int \<Rightarrow> int) \<Rightarrow> int" where
  "offset_above a tr c ix =
     (\<Sum>j\<leftarrow>[0..<c]. depth_strides a tr ! j * (ix (depth_axis a tr j) - 1))"

definition leaves_above :: "PyArrayObject \<Rightarrow> bool \<Rightarrow> nat \<Rightarrow> (int \<Rightarrow> int) \<Rightarrow> int" where
  "leaves_above a tr c ix =
     (\<Sum>j\<leftarrow>[0..<c]. (ix (depth_axis a tr j) - 1) * prod_list (drop (Suc j) (depth_dims a tr)))"

definition steps_above :: "PyArrayObject \<Rightarrow> bool \<Rightarrow> nat \<Rightarrow> (int \<Rightarrow> int) \<Rightarrow> int" where
  "steps_above a tr c ix =
     (\<Sum>j\<leftarrow>[0..<c]. (depth_dims a tr ! j - ix (depth_axis a tr j)) *
                        elem_cost (drop (Suc j) (depth_dims a tr)) + 1)"

definition steps_left :: "PyArrayObject \<Rightarrow> bool \<Rightarrow> walker \<Rightarrow> int" where
  "steps_left a tr w =
     (if contexts w = [] then 0
      else (let n = strider w; c = nat (curdim n) in
            steps_above a tr c (index n) +
            (dim n - index n (stridedim n)) * elem_cost (drop (Suc c) (depth_dims a tr)) + 1))"

text \<open>The strider at depth \<open>c\<close> of a walk over \<open>a\<close>.\<close>

definition strider_at :: "PyArrayObject \<Rightarrow> bool \<Rightarrow> nat \<Rightarrow> NpyArrContext \<Rightarrow> bool" where
  "strider_at a tr c n \<longleftrightarrow>
     Suc c \<le> length (PyArray_DIMS a) \<and>
     array n = a \<and> ndim n = PyArray_NDIM a - 1 \<and> inc n = (if tr then - 1 else 1) \<and>
     curdim n = int c \<and> stridedim n = depth_axis a tr c \<and>
     dim n = depth_dims a tr ! c \<and> stride n = depth_strides a tr ! c \<and>
     0 \<le> index n (depth_axis a tr c) \<and> index n (depth_axis a tr c) \<le> depth_dims a tr ! c \<and>
     (\<forall>j<c. 1 \<le> index n (depth_axis a tr j) \<and> index n (depth_axis a tr j) \<le> depth_dims a tr ! j) \<and>
     dataptr n = PyArray_DATA a + offset_above a tr c (index n)
                   + depth_strides a tr ! c * index n (depth_axis a tr c)"

text \<open>
  The open type contexts of a walk: the outermost one ends with \<^verbatim>\<open>NpyArr_iterEnd\<close>,
  the others are pass-through children, and every context below the innermost one is
  in its descent phase.
\<close>

fun well_stacked :: "NpyArr_context list \<Rightarrow> bool" where
  "well_stacked [] = False"
| "well_stacked [t] = (iterEnd t = NpyArr_iterEnd_fn)"
| "well_stacked (t # t' # ts) =
     (iterEnd t = NpyArrPassThru_iterEnd_fn \<and> iterNext t' = NpyArr_iterNext_fn \<and>
      well_stacked (t' # ts))"

definition walk_inv :: "PyArrayObject \<Rightarrow> bool \<Rightarrow> walker \<Rightarrow> bool" where
  "walk_inv a tr w \<longleftrightarrow>
     (\<exists>tc outer.
        contexts w = tc # outer \<and> well_stacked (tc # outer) \<and>
        (iterNext tc = NpyArr_iterNext_fn \<or>
         iterNext tc = NpyArr_iterNextItem_fn \<and> Suc (length outer) = length (PyArray_DIMS a)) \<and>
        strider_at a tr (length outer) (strider w) \<and>
        int (leaves w) = leaves_above a tr (length outer) (index (strider w))
           + index (strider w) (stridedim (strider w))
             * prod_list (drop (Suc (length outer)) (depth_dims a tr)) \<and>
        npyType (encoder w) = - 1 \<and> \<not> npyCtxtPassthru (encoder w) \<and> pyerr w = None)"


text \<open>
  The addresses of the elements of an array: the base plus, for one position on every
  axis, the stride of the axis times the position.
\<close>

definition element_address :: "PyArrayObject \<Rightarrow> int \<Rightarrow> bool" where
  "element_address a p \<longleftrightarrow>
     (\<exists>pos. length pos = length (PyArray_DIMS a) \<and>
        (\<forall>k<length pos. 0 \<le> pos ! k \<and> pos ! k < PyArray_DIMS a ! k) \<and>
        p = PyArray_DATA a + (\<Sum>k\<leftarrow>[0..<length pos]. PyArray_STRIDES a ! k * pos ! k))"

text \<open>
  A walk with an error pending: every \<^verbatim>\<open>iterNext\<close> answers 0 and the open type contexts
  are ended one by one.
\<close>

definition err_inv :: "PyArrayObject \<Rightarrow> bool \<Rightarrow> walker \<Rightarrow> bool" where
  "err_inv a tr w \<longleftrightarrow>
     (\<exists>tc outer.
        contexts w = tc # outer \<and> well_stacked (tc # outer) \<and>
        (iterNext tc = NpyArr_iterNext_fn \<or> iterNext tc = NpyArr_iterNextItem_fn) \<and>
        strider_at a tr (length outer) (strider w) \<and> pyerr w \<noteq> None)"


section \<open>Properties of the top-level entry\<close>

lemma objToJSON_orient_Inr:
  "objToJSON_orient so enc = Inr enc' \<Longrightarrow>
     datetimeUnit enc' = datetimeUnit enc \<and> (so = None \<longrightarrow> enc' = enc) \<and>
     (\<forall>s. so = Some s \<longrightarrow> s \<in> {''records'', ''index'', ''split'', ''values'', ''columns''})"
  by (cases so) (auto simp: objToJSON_orient_def split: if_splits)

lemma objToJSON_date_unit_Inr:
  "objToJSON_date_unit sd enc = Inr enc' \<Longrightarrow>
     outputFormat enc' = outputFormat enc \<and> (sd = None \<longrightarrow> enc' = enc) \<and>
     (\<forall>u. sd = Some u \<longrightarrow> u \<in> {''s'', ''ms'', ''us'', ''ns''})"
  by (cases sd) (auto simp: objToJSON_date_unit_def split: if_splits)

lemma objToJSON_default_handler_Inr:
  "objToJSON_default_handler h enc = Inr enc' \<Longrightarrow>
     outputFormat enc' = outputFormat enc \<and> datetimeUnit enc' = datetimeUnit enc"
  by (auto simp: objToJSON_default_handler_def split: option.splits handler_arg.splits)

lemma objToJSON_init_fields:
  "outputFormat (objToJSON_init a) = COLUMNS" "datetimeUnit (objToJSON_init a) = NPY_FR_ms"
  by (simp_all add: objToJSON_init_def Let_def)

lemma objToJSON_encoder_Inr:
  assumes "objToJSON_encoder max_decimals a = Inr enc"
  shows "sOrient a = None \<Longrightarrow> outputFormat enc = COLUMNS"
    and "sdateFormat a = None \<Longrightarrow> datetimeUnit enc = NPY_FR_ms"
    and "originalOutputFormat enc = outputFormat enc"
    and "sOrient a = Some s \<Longrightarrow> s \<in> {''records'', ''index'', ''split'', ''values'', ''columns''}"
    and "sdateFormat a = Some u \<Longrightarrow> u \<in> {''s'', ''ms'', ''us'', ''ns''}"
    and "idoublePrecision a = Some p \<Longrightarrow> 0 \<le> p \<and> p \<le> max_decimals"
proof -
  let ?prec = "case idoublePrecision a of None \<Rightarrow> 10 | Some p \<Rightarrow> p"
  let ?e2 = "(objToJSON_init a)\<lparr>doublePrecision := ?prec\<rparr>"
  from assms have prec: "\<not> (?prec > max_decimals \<or> ?prec < 0)"
    by (auto simp: objToJSON_encoder_def Let_def)
  from assms prec obtain enc4 where o: "objToJSON_orient (sOrient a) ?e2 = Inr enc4"
    by (cases "objToJSON_orient (sOrient a) ?e2") (simp_all add: objToJSON_encoder_def Let_def)
  from assms prec o obtain enc5 where d: "objToJSON_date_unit (sdateFormat a) enc4 = Inr enc5"
    by (cases "objToJSON_date_unit (sdateFormat a) enc4") (simp_all add: objToJSON_encoder_def Let_def)
  let ?e6 = "if oisoDates a = Some True then enc5\<lparr>datetimeIso := True\<rparr> else enc5"
  from assms prec o d obtain enc7 where h: "objToJSON_default_handler (odefHandler a) ?e6 = Inr enc7"
    by (cases "objToJSON_default_handler (odefHandler a) ?e6") (simp_all add: objToJSON_encoder_def Let_def)
  from assms prec o d h have enc: "enc = enc7\<lparr>originalOutputFormat := outputFormat enc7\<rparr>"
    by (simp add: objToJSON_encoder_def Let_def)
  have e6: "outputFormat ?e6 = outputFormat enc5" "datetimeUnit ?e6 = datetimeUnit enc5" by simp_all
  note O = objToJSON_orient_Inr[OF o] and D = objToJSON_date_unit_Inr[OF d]
    and H = objToJSON_default_handler_Inr[OF h]
  show "sOrient a = None \<Longrightarrow> outputFormat enc = COLUMNS"
    using O D H e6 enc by (simp add: objToJSON_init_fields)
  show "sdateFormat a = None \<Longrightarrow> datetimeUnit enc = NPY_FR_ms"
    using O D H e6 enc by (simp add: objToJSON_init_fields)
  show "originalOutputFormat enc = outputFormat enc" using enc by simp
  show "idoublePrecision a = Some p \<Longrightarrow> 0 \<le> p \<and> p \<le> max_decimals"
    using prec by simp
  show "sOrient a = Some s \<Longrightarrow> s \<in> {''records'', ''index'', ''split'', ''values'', ''columns''}"
    using O[THEN conjunct2, THEN conjunct2] by (rule allE) (erule (1) impE)
  show "sdateFormat a = Some u \<Longrightarrow> u \<in> {''s'', ''ms'', ''us'', ''ns''}"
    using D[THEN conjunct2, THEN conjunct2] by (rule allE) (erule (1) impE)
qed

lemma objToJSON_encoder_cases:
  "(\<exists>e. objToJSON_encoder max_decimals a = Inl e) \<or> (\<exists>enc. objToJSON_encoder max_decimals a = Inr enc)"
  by (cases "objToJSON_encoder max_decimals a") simp_all

lemma objToJSON_Inl:
  "objToJSON_encoder max_decimals a = Inl e \<Longrightarrow>
   objToJSON max_decimals writer from_string (Some a) = \<lparr>returned = Inl e, freed = []\<rparr>"
  by (simp add: objToJSON_def)

lemma objToJSON_Inr:
  "objToJSON_encoder max_decimals a = Inr enc \<Longrightarrow>
   objToJSON max_decimals writer from_string (Some a) = objToJSON_finish from_string (writer enc (oinput a))"
  by (simp add: objToJSON_def)

text \<open>
  Claim C7. An \<^verbatim>\<open>orient\<close> string outside records, index, split, values, columns, a
  \<^verbatim>\<open>date_unit\<close> string outside s, ms, us, ns, or a \<^verbatim>\<open>double_precision\<close> outside
  \<open>0..max_decimals\<close> makes the call return an error that does not depend on the writer,
  so the writer has not run and nothing was freed. When the options are accepted, the
  writer runs on the encoder built from them; there the orientation is \<open>COLUMNS\<close> if no
  orient was given and the date unit is \<open>NPY_FR_ms\<close> if no date unit was given.
\<close>

theorem objToJSON_rejects_invalid_options:
  "((\<exists>s. sOrient a = Some s \<and> s \<notin> {''records'', ''index'', ''split'', ''values'', ''columns''}) \<or>
    (\<exists>u. sdateFormat a = Some u \<and> u \<notin> {''s'', ''ms'', ''us'', ''ns''}) \<or>
    (\<exists>p. idoublePrecision a = Some p \<and> (p < 0 \<or> max_decimals < p))
    \<longrightarrow> (\<exists>e. \<forall>writer from_string.
           objToJSON max_decimals writer from_string (Some a) = \<lparr>returned = Inl e, freed = []\<rparr>))
   \<and> (\<forall>enc. objToJSON_encoder max_decimals a = Inr enc \<longrightarrow>
         (\<forall>writer from_string. objToJSON max_decimals writer from_string (Some a) =
             objToJSON_finish from_string (writer enc (oinput a))) \<and>
         (sOrient a = None \<longrightarrow> outputFormat enc = COLUMNS) \<and>
         (sdateFormat a = None \<longrightarrow> datetimeUnit enc = NPY_FR_ms))"
proof (intro conjI impI allI)
  assume bad: "(\<exists>s. sOrient a = Some s \<and> s \<notin> {''records'', ''index'', ''split'', ''values'', ''columns''}) \<or>
    (\<exists>u. sdateFormat a = Some u \<and> u \<notin> {''s'', ''ms'', ''us'', ''ns''}) \<or>
    (\<exists>p. idoublePrecision a = Some p \<and> (p < 0 \<or> max_decimals < p))"
  have "\<not> (\<exists>enc. objToJSON_encoder max_decimals a = Inr enc)"
  proof
    assume "\<exists>enc. objToJSON_encoder max_decimals a = Inr enc"
    then obtain enc where "objToJSON_encoder max_decimals a = Inr enc" ..
    note E = objToJSON_encoder_Inr[OF this]
    from bad show False
    proof (elim disjE)
      assume "\<exists>s. sOrient a = Some s \<and> s \<notin> {''records'', ''index'', ''split'', ''values'', ''columns''}"
      then obtain s where "sOrient a = Some s"
        and "s \<notin> {''records'', ''index'', ''split'', ''values'', ''columns''}"
        by (elim exE conjE) (rule that)
      with E(4)[of s] show False by (rule_tac notE)
    next
      assume "\<exists>u. sdateFormat a = Some u \<and> u \<notin> {''s'', ''ms'', ''us'', ''ns''}"
      then obtain u where "sdateFormat a = Some u" and "u \<notin> {''s'', ''ms'', ''us'', ''ns''}"
        by (elim exE conjE) (rule that)
      with E(5)[of u] show False by (rule_tac notE)
    next
      assume "\<exists>p. idoublePrecision a = Some p \<and> (p < 0 \<or> max_decimals < p)"
      then obtain p where "idoublePrecision a = Some p" and "p < 0 \<or> max_decimals < p"
        by (elim exE conjE) (rule that)
      with E(6)[of p] show False by auto
    qed
  qed
  with objToJSON_encoder_cases[of max_decimals a]
  obtain e where "objToJSON_encoder max_decimals a = Inl e" by blast
  then show "\<exists>e. \<forall>writer from_string.
           objToJSON max_decimals writer from_string (Some a) = \<lparr>returned = Inl e, freed = []\<rparr>"
    by (intro exI[of _ e] allI) (rule objToJSON_Inl)
next
  fix enc writer from_string assume "objToJSON_encoder max_decimals a = Inr enc"
  then show "objToJSON max_decimals writer from_string (Some a) =
             objToJSON_finish from_string (writer enc (oinput a))"
    by (rule objToJSON_Inr)
next
  fix enc assume "objToJSON_encoder max_decimals a = Inr enc" "sOrient a = None"
  then show "outputFormat enc = COLUMNS" by (rule objToJSON_encoder_Inr(1))
next
  fix enc assume "objToJSON_encoder max_decimals a = Inr enc" "sdateFormat a = None"
  then show "datetimeUnit enc = NPY_FR_ms" by (rule objToJSON_encoder_Inr(2))
qed

theorem objToJSON_rejects_invalid_options_witness:
  "(\<exists>e. \<forall>writer from_string.
      objToJSON 15 writer from_string
        (Some \<lparr> oinput = (), oensureAscii = None, idoublePrecision = None,
                 oencodeHTMLChars = None, sOrient = Some ''rows'', sdateFormat = None,
                 oisoDates = None, odefHandler = None \<rparr>)
      = \<lparr>returned = Inl e, freed = []\<rparr>)
   \<and> (\<exists>enc. objToJSON_encoder 15
          \<lparr> oinput = (), oensureAscii = None, idoublePrecision = Some 3,
            oencodeHTMLChars = None, sOrient = None, sdateFormat = None,
            oisoDates = None, odefHandler = None \<rparr> = Inr enc
        \<and> outputFormat enc = COLUMNS \<and> datetimeUnit enc = NPY_FR_ms)"
proof
  let ?bad = "\<lparr> oinput = (), oensureAscii = None, idoublePrecision = None,
                 oencodeHTMLChars = None, sOrient = Some ''rows'', sdateFormat = None,
                 oisoDates = None, odefHandler = None \<rparr>"
  have "\<exists>s. sOrient ?bad = Some s \<and> s \<notin> {''records'', ''index'', ''split'', ''values'', ''columns''}"
    by simp
  with objToJSON_rejects_invalid_options[of ?bad 15]
  show "\<exists>e. \<forall>writer from_string.
      objToJSON 15 writer from_string (Some ?bad) = \<lparr>returned = Inl e, freed = []\<rparr>"
    by (elim conjE) (erule impE, erule disjI1, assumption)
next
  let ?good = "\<lparr> oinput = (), oensureAscii = None, idoublePrecision = Some 3,
            oencodeHTMLChars = None, sOrient = None, sdateFormat = None,
            oisoDates = None, odefHandler = None \<rparr>"
  obtain enc where enc: "objToJSON_encoder 15 ?good = Inr enc"
    by (simp add: objToJSON_encoder_def objToJSON_init_def objToJSON_orient_def
          objToJSON_date_unit_def objToJSON_default_handler_def Let_def)
  with objToJSON_rejects_invalid_options[of ?good 15]
  have "outputFormat enc = COLUMNS \<and> datetimeUnit enc = NPY_FR_ms" by simp
  with enc show "\<exists>enc. objToJSON_encoder 15 ?good = Inr enc
        \<and> outputFormat enc = COLUMNS \<and> datetimeUnit enc = NPY_FR_ms" by blast
qed

text \<open>
  Claim C9. When the options are accepted, the writer leaves no Python exception pending
  and its \<^verbatim>\<open>errorMsg\<close> slot holds a message \<open>m\<close>, the call raises \<open>OverflowError m\<close>,
  whatever the message says.
\<close>

theorem objToJSON_errorMsg_raises_OverflowError:
  assumes "objToJSON_encoder max_decimals a = Inr enc"
      and "w_PyErr_Occurred (writer enc (oinput a)) = None"
      and "w_errorMsg (writer enc (oinput a)) = Some m"
  shows "returned (objToJSON max_decimals writer from_string (Some a)) = Inl (OverflowError m)"
  using assms by (simp add: objToJSON_def objToJSON_finish_def)

theorem objToJSON_errorMsg_raises_OverflowError_witness:
  "returned (objToJSON 15
      (\<lambda>enc obj. \<lparr> w_ret = NullPtr, w_written = [], w_PyErr_Occurred = None,
                   w_errorMsg = Some ''Could not reserve memory block'' \<rparr>)
      Inr
      (Some \<lparr> oinput = (), oensureAscii = None, idoublePrecision = None,
               oencodeHTMLChars = None, sOrient = None, sdateFormat = None,
               oisoDates = None, odefHandler = None \<rparr>))
   = Inl (OverflowError ''Could not reserve memory block'')"
proof -
  let ?a = "\<lparr> oinput = (), oensureAscii = None, idoublePrecision = None,
               oencodeHTMLChars = None, sOrient = None, sdateFormat = None,
               oisoDates = None, odefHandler = None \<rparr>"
  obtain enc where enc: "objToJSON_encoder 15 ?a = Inr enc"
    by (simp add: objToJSON_encoder_def objToJSON_init_def objToJSON_orient_def
          objToJSON_date_unit_def objToJSON_default_handler_def Let_def)
  show ?thesis
    by (rule objToJSON_errorMsg_raises_OverflowError[OF enc]) simp_all
qed

text \<open>
  Claim C2. A failed call never returns text: \<open>returned\<close> is \<open>Inl\<close> on both failure
  exits. The exit taken when a Python exception is pending returns without calling
  \<^verbatim>\<open>encoder->free\<close>, also when the writer has moved its output to a heap block; the
  exit for a set \<^verbatim>\<open>errorMsg\<close> and the successful exit both free that block.
\<close>

theorem objToJSON_pending_exception_keeps_heap_block:
  "objToJSON 15
      (\<lambda>enc obj. \<lparr> w_ret = HeapBlock 1, w_written = ''[1,2'',
                   w_PyErr_Occurred = Some (OverflowError ''int too big to convert''),
                   w_errorMsg = None \<rparr>)
      from_string
      (Some \<lparr> oinput = (), oensureAscii = None, idoublePrecision = None,
               oencodeHTMLChars = None, sOrient = None, sdateFormat = None,
               oisoDates = None, odefHandler = None \<rparr>)
   = \<lparr> returned = Inl (OverflowError ''int too big to convert''), freed = [] \<rparr>"
  by (simp add: objToJSON_def objToJSON_finish_def objToJSON_encoder_def objToJSON_init_def
        objToJSON_orient_def objToJSON_date_unit_def objToJSON_default_handler_def Let_def)

lemma objToJSON_finish_failure_frees:
  "w_PyErr_Occurred w = None \<Longrightarrow> w_errorMsg w = Some m \<Longrightarrow> w_ret w = HeapBlock b \<Longrightarrow>
   objToJSON_finish from_string w = \<lparr> returned = Inl (OverflowError m), freed = [HeapBlock b] \<rparr>"
  by (simp add: objToJSON_finish_def)


section \<open>Properties of the attribute-dir driver\<close>

declare Dir_loop.simps [simp del]

lemma Dir_loop_clears_error:
  "err = None \<Longrightarrow> snd (Dir_loop getattr callable names sz i err) = None"
proof (induction getattr callable names sz i err rule: Dir_loop.induct)
  case (1 getattr callable names sz i err)
  show ?case
    using "1.prems" "1.IH"
    by (subst Dir_loop.simps) (auto simp: Let_def PyErr_Clear_def split: sum.splits list.splits)
qed

lemma Dir_loop_skip:
  assumes "i < sz"
      and "(\<exists>cs. names ! nat i = CHR ''_'' # cs) \<or> (\<exists>e. getattr (names ! nat i) = Inl e) \<or>
           (\<exists>v. getattr (names ! nat i) = Inr v \<and> callable v)"
  shows "Dir_loop getattr callable names sz i None = Dir_loop getattr callable names sz (i + 1) None"
  using assms
  by (subst Dir_loop.simps) (auto simp: Let_def PyErr_Clear_def split: sum.splits list.splits)

lemma Dir_loop_skips:
  assumes "i \<le> j" and "j \<le> sz"
      and "\<forall>k. i \<le> k \<and> k < j \<longrightarrow>
             (\<exists>cs. names ! nat k = CHR ''_'' # cs) \<or> (\<exists>e. getattr (names ! nat k) = Inl e) \<or>
             (\<exists>v. getattr (names ! nat k) = Inr v \<and> callable v)"
  shows "Dir_loop getattr callable names sz i None = Dir_loop getattr callable names sz j None"
  using assms
proof (induction "nat (j - i)" arbitrary: i)
  case 0
  then show ?case by simp
next
  case (Suc m)
  then have lt: "i < j" and m: "m = nat (j - (i + 1))" by linarith+
  from lt Suc.prems have sk: "(\<exists>cs. names ! nat i = CHR ''_'' # cs) \<or>
      (\<exists>e. getattr (names ! nat i) = Inl e) \<or> (\<exists>v. getattr (names ! nat i) = Inr v \<and> callable v)"
    by simp
  from lt Suc.prems have "i < sz" by simp
  then have "Dir_loop getattr callable names sz i None = Dir_loop getattr callable names sz (i + 1) None"
    using sk by (rule Dir_loop_skip)
  also have "\<dots> = Dir_loop getattr callable names sz j None"
    using lt Suc.prems by (intro Suc.hyps(1)[OF m]) simp_all
  finally show ?case .
qed

lemma Dir_loop_found:
  assumes "j < sz" and "\<nexists>cs. names ! nat j = CHR ''_'' # cs"
      and "getattr (names ! nat j) = Inr v" and "\<not> callable v"
  shows "Dir_loop getattr callable names sz j None = (Some (j, names ! nat j, v), None)"
  using assms
  by (subst Dir_loop.simps) (auto simp: Let_def split: list.splits)

lemma Dir_loop_end:
  "Dir_loop getattr callable names sz sz None = (None, None)"
  by (subst Dir_loop.simps) simp

text \<open>
  Claim C10. \<^verbatim>\<open>Dir_iterNext\<close> is called with no error pending at position
  \<^verbatim>\<open>index\<close> of the attribute list. Let every name from there up to position \<open>j\<close> be
  one that starts with an underscore, one whose fetch raises, or one whose value is
  callable. If the name at \<open>j\<close> is none of these, the call answers 1 with that name and
  its value as the current item; if \<open>j\<close> is the end of the list, the call answers 0. In
  both cases no error is pending afterwards: every error that a fetch raised on the way
  has been cleared.
\<close>

theorem Dir_iterNext_skips_failing_attribute:
  assumes "0 \<le> dir_index tc" and "dir_index tc \<le> j" and "j \<le> dir_size tc"
      and "\<forall>k. dir_index tc \<le> k \<and> k < j \<longrightarrow>
             (\<exists>cs. attrList tc ! nat k = CHR ''_'' # cs) \<or>
             (\<exists>e. getattr (attrList tc ! nat k) = Inl e) \<or>
             (\<exists>v. getattr (attrList tc ! nat k) = Inr v \<and> callable v)"
  shows "(\<forall>v. j < dir_size tc \<longrightarrow> (\<nexists>cs. attrList tc ! nat j = CHR ''_'' # cs) \<longrightarrow>
              getattr (attrList tc ! nat j) = Inr v \<longrightarrow> \<not> callable v \<longrightarrow>
              Dir_iterNext getattr callable None None tc =
                (True,
                 tc\<lparr> dir_itemName := Some (attrList tc ! nat j), dir_itemValue := Some v,
                     dir_index := j + 2 \<rparr>,
                 None))
       \<and> (j = dir_size tc \<longrightarrow>
              Dir_iterNext getattr callable None None tc =
                (False,
                 tc\<lparr> dir_itemName := None, dir_itemValue := None, dir_index := dir_size tc \<rparr>,
                 None))"
proof -
  have skip: "Dir_loop getattr callable (attrList tc) (dir_size tc) (dir_index tc) None =
        Dir_loop getattr callable (attrList tc) (dir_size tc) j None"
    by (rule Dir_loop_skips[OF assms(2,3,4)])
  show ?thesis
  proof (intro conjI allI impI)
    fix v
    assume "j < dir_size tc" "\<nexists>cs. attrList tc ! nat j = CHR ''_'' # cs"
      "getattr (attrList tc ! nat j) = Inr v" "\<not> callable v"
    then have "Dir_loop getattr callable (attrList tc) (dir_size tc) j None =
                 (Some (j, attrList tc ! nat j, v), None)"
      by (rule Dir_loop_found)
    then show "Dir_iterNext getattr callable None None tc =
            (True,
             tc\<lparr> dir_itemName := Some (attrList tc ! nat j), dir_itemValue := Some v,
                 dir_index := j + 2 \<rparr>,
             None)"
      by (simp add: Dir_iterNext_def Let_def skip)
  next
    assume "j = dir_size tc"
    with skip Dir_loop_end[of getattr callable "attrList tc" "dir_size tc"]
    show "Dir_iterNext getattr callable None None tc =
            (False,
             tc\<lparr> dir_itemName := None, dir_itemValue := None, dir_index := dir_size tc \<rparr>,
             None)"
      by (simp add: Dir_iterNext_def Let_def)
  qed
qed

theorem Dir_iterNext_skips_failing_attribute_witness:
  "Dir_iterNext
      (\<lambda>n. if n = ''broken'' then Inl (Raised ''AttributeError'')
            else if n = ''method'' then Inr (9 :: nat) else Inr 5)
      (\<lambda>v. v = 9) None None
      \<lparr> attrList = [''_private'', ''broken'', ''method'', ''val''], dir_index = 0, dir_size = 4,
        dir_itemName = None, dir_itemValue = None \<rparr>
   = (True,
      \<lparr> attrList = [''_private'', ''broken'', ''method'', ''val''], dir_index = 5, dir_size = 4,
        dir_itemName = Some ''val'', dir_itemValue = Some 5 \<rparr>,
      None)
   \<and> Dir_iterNext
      (\<lambda>n. if n = ''broken'' then Inl (Raised ''AttributeError'')
            else if n = ''method'' then Inr (9 :: nat) else Inr 5)
      (\<lambda>v. v = 9) None None
      \<lparr> attrList = [''_private'', ''broken'', ''method''], dir_index = 0, dir_size = 3,
        dir_itemName = None, dir_itemValue = None \<rparr>
   = (False,
      \<lparr> attrList = [''_private'', ''broken'', ''method''], dir_index = 3, dir_size = 3,
        dir_itemName = None, dir_itemValue = None \<rparr>,
      None)"
proof -
  let ?g = "\<lambda>n. if n = ''broken'' then Inl (Raised ''AttributeError'')
            else if n = ''method'' then Inr (9 :: nat) else Inr 5"
  let ?c = "\<lambda>v :: nat. v = 9"
  let ?tc = "\<lparr> attrList = [''_private'', ''broken'', ''method'', ''val''], dir_index = 0,
        dir_size = 4, dir_itemName = None, dir_itemValue = None :: nat option \<rparr>"
  let ?tc' = "\<lparr> attrList = [''_private'', ''broken'', ''method''], dir_index = 0,
        dir_size = 3, dir_itemName = None, dir_itemValue = None :: nat option \<rparr>"
  have sk: "(\<exists>cs. names ! nat k = CHR ''_'' # cs) \<or> (\<exists>e. ?g (names ! nat k) = Inl e) \<or>
            (\<exists>v. ?g (names ! nat k) = Inr v \<and> ?c v)"
    if "0 \<le> k" "k < 3" "take 3 names = [''_private'', ''broken'', ''method'']"
    for k :: int and names :: "string list"
  proof -
    from that(1,2) consider "k = 0" | "k = 1" | "k = 2" by linarith
    then show ?thesis
    proof cases
      case 1
      with that(3) have "names ! nat k = ''_private''"
        by (metis nat_zero_as_int less_numeral_extra(1) nth_Cons_0 nth_take zero_less_numeral)
      then show ?thesis by simp
    next
      case 2
      with that(3) have "names ! nat k = ''broken''"
        by (metis One_nat_def nat_1 nth_Cons_0 nth_Cons_Suc nth_take one_less_numeral_iff semiring_norm(77))
      then show ?thesis by simp
    next
      case 3
      with that(3) have "names ! nat k = ''method''"
        by (metis Suc_1 lessI nat_numeral nth_Cons_0 nth_Cons_Suc nth_take numeral_2_eq_2 numeral_3_eq_3)
      then show ?thesis by simp
    qed
  qed
  have 1: "0 \<le> dir_index ?tc" "dir_index ?tc \<le> 3" "3 \<le> dir_size ?tc"
    and 2: "0 \<le> dir_index ?tc'" "dir_index ?tc' \<le> 3" "3 \<le> dir_size ?tc'"
    by simp_all
  have 3: "\<forall>k. dir_index ?tc \<le> k \<and> k < 3 \<longrightarrow>
             (\<exists>cs. attrList ?tc ! nat k = CHR ''_'' # cs) \<or>
             (\<exists>e. ?g (attrList ?tc ! nat k) = Inl e) \<or>
             (\<exists>v. ?g (attrList ?tc ! nat k) = Inr v \<and> ?c v)"
    using sk[of _ "attrList ?tc"] by simp
  have 4: "\<forall>k. dir_index ?tc' \<le> k \<and> k < 3 \<longrightarrow>
             (\<exists>cs. attrList ?tc' ! nat k = CHR ''_'' # cs) \<or>
             (\<exists>e. ?g (attrList ?tc' ! nat k) = Inl e) \<or>
             (\<exists>v. ?g (attrList ?tc' ! nat k) = Inr v \<and> ?c v)"
    using sk[of _ "attrList ?tc'"] by simp
  note A = Dir_iterNext_skips_failing_attribute[of ?tc 3 ?g ?c, OF 1 3]
  note B = Dir_iterNext_skips_failing_attribute[of ?tc' 3 ?g ?c, OF 2 4]
  from A have "Dir_iterNext ?g ?c None None ?tc =
     (True, ?tc\<lparr> dir_itemName := Some (attrList ?tc ! nat 3), dir_itemValue := Some 5,
                 dir_index := 3 + 2 \<rparr>, None)"
    by simp
  moreover from B have "Dir_iterNext ?g ?c None None ?tc' =
     (False, ?tc'\<lparr> dir_itemName := None, dir_itemValue := None, dir_index := dir_size ?tc' \<rparr>, None)"
    by simp
  ultimately show ?thesis by simp
qed

lemma Dir_iterNext_example:
  "Dir_iterNext (\<lambda>n. if n = ''broken'' then Inl (Raised ''AttributeError'') else Inr (5::nat))
      (\<lambda>v. False) None None
      \<lparr> attrList = [''broken'', ''val''], dir_index = 0, dir_size = 2,
        dir_itemName = None, dir_itemValue = None \<rparr>
   = (True, \<lparr> attrList = [''broken'', ''val''], dir_index = 3, dir_size = 2,
        dir_itemName = Some ''val'', dir_itemValue = Some 5 \<rparr>, None)"
  by (simp add: Dir_iterNext_def Dir_loop.simps PyErr_Clear_def Let_def)


section \<open>Properties of the label pre-encoder\<close>

declare encodeLabels_loop.simps [simp del]

lemma encodeLabels_loop_error:
  "snd (encodeLabels_loop numeric getitem encode alloc items num i ret) \<noteq> Some (ValueError m)"
proof (induction numeric getitem encode alloc items num i ret rule: encodeLabels_loop.induct)
  case (1 numeric getitem encode alloc items num i ret)
  show ?case
    using "1.IH"
    by (subst encodeLabels_loop.simps) (auto split: option.splits label_encoding.splits)
qed

lemma encodeLabels_loop_length:
  "fst (encodeLabels_loop numeric getitem encode alloc items num i ret) = Some r \<Longrightarrow> i \<le> num \<Longrightarrow>
   int (length r) = int (length ret) + (num - i)"
proof (induction numeric getitem encode alloc items num i ret rule: encodeLabels_loop.induct)
  case (1 numeric getitem encode alloc items num i ret)
  show ?case
  proof (cases "i < num")
    case False
    with "1.prems" show ?thesis by (subst (asm) encodeLabels_loop.simps) simp
  next
    case True
    from "1.prems"(1) True obtain item cLabel off where
      item: "(if numeric then Some (items ! nat i) else getitem (items ! nat i)) = Some item"
      and e: "encode numeric item = Encoded cLabel off" and al: "alloc (nat i)"
      and r: "fst (encodeLabels_loop numeric getitem encode alloc items num (i + 1)
                (ret @ [label_bytes cLabel off])) = Some r"
      by (subst (asm) encodeLabels_loop.simps)
         (auto split: option.splits label_encoding.splits if_splits)
    from "1.IH"[OF True item e _ r] al True show ?thesis by simp
  qed
qed

text \<open>
  Claim C6, as the code has it. \<^verbatim>\<open>NpyArr_encodeLabels\<close> raises "Label array sizes do
  not match corresponding data shape" exactly when it is given an array whose length is
  less than the expected label count \<open>num\<close> (not when the count is less than the
  length). When it returns an array of slices for a count that is not negative, it
  returns one slice per expected label.
\<close>

theorem NpyArr_encodeLabels_size_mismatch:
  "(snd (NpyArr_encodeLabels numeric getitem encode alloc_ret alloc labels num) =
      Some (ValueError ''Label array sizes do not match corresponding data shape'')
    \<longleftrightarrow> (\<exists>items. labels = Some items \<and> int (length items) < num))
   \<and> (\<forall>ret. 0 \<le> num \<longrightarrow>
          fst (NpyArr_encodeLabels numeric getitem encode alloc_ret alloc labels num) = Some ret \<longrightarrow>
          int (length ret) = num)"
proof (intro conjI allI impI)
  show "snd (NpyArr_encodeLabels numeric getitem encode alloc_ret alloc labels num) =
      Some (ValueError ''Label array sizes do not match corresponding data shape'')
    \<longleftrightarrow> (\<exists>items. labels = Some items \<and> int (length items) < num)"
    using encodeLabels_loop_error[of numeric getitem encode alloc _ num 0 "[]"]
    by (cases labels) (simp_all add: NpyArr_encodeLabels_def)
next
  fix ret assume "0 \<le> num"
    and "fst (NpyArr_encodeLabels numeric getitem encode alloc_ret alloc labels num) = Some ret"
  then show "int (length ret) = num"
    using encodeLabels_loop_length[of numeric getitem encode alloc _ num 0 "[]" ret]
    by (cases labels) (auto simp: NpyArr_encodeLabels_def split: if_splits)
qed

lemma encodeLabels_example_two_of_three:
  "NpyArr_encodeLabels False Some
      (\<lambda>staged l. Encoded ([DQUOTE] @ l @ [DQUOTE, NUL]) (int (length l) + 3))
      True (\<lambda>i. True) (Some [''a'', ''b'', ''c'']) 2
   = (Some [[DQUOTE, CHR ''a'', DQUOTE, CHR '':'', NUL], [DQUOTE, CHR ''b'', DQUOTE, CHR '':'', NUL]],
      None)"
  by (simp add: NpyArr_encodeLabels_def encodeLabels_loop.simps label_bytes_def DQUOTE_def NUL_def)

text \<open>
  An array of three labels with an expected count of two: the count is less than the
  length of the label array, and the pre-encoder does not fail; it encodes the first two
  labels.
\<close>

theorem NpyArr_encodeLabels_count_below_length_counterexample:
  "(2 :: int) < int (length [''a'', ''b'', ''c''])
   \<and> NpyArr_encodeLabels False Some
      (\<lambda>staged l. Encoded ([DQUOTE] @ l @ [DQUOTE, NUL]) (int (length l) + 3))
      True (\<lambda>i. True) (Some [''a'', ''b'', ''c'']) 2
   = (Some [[DQUOTE, CHR ''a'', DQUOTE, CHR '':'', NUL], [DQUOTE, CHR ''b'', DQUOTE, CHR '':'', NUL]],
      None)"
  by (simp add: NpyArr_encodeLabels_def encodeLabels_loop.simps label_bytes_def DQUOTE_def NUL_def)

theorem NpyArr_encodeLabels_size_mismatch_witness:
  "snd (NpyArr_encodeLabels True Some
          (\<lambda>staged l. Encoded (l @ [NUL]) (int (length l) + 1))
          True (\<lambda>i. True) (Some [''10'', ''20'']) 3)
     = Some (ValueError ''Label array sizes do not match corresponding data shape'')
   \<and> fst (NpyArr_encodeLabels True Some
          (\<lambda>staged l. Encoded (l @ [NUL]) (int (length l) + 1))
          True (\<lambda>i. True) (Some [''10'', ''20'']) 2)
     = Some [[DQUOTE, CHR ''1'', CHR ''0'', DQUOTE, CHR '':'', NUL],
             [DQUOTE, CHR ''2'', CHR ''0'', DQUOTE, CHR '':'', NUL]]
   \<and> int (length [[DQUOTE, CHR ''1'', CHR ''0'', DQUOTE, CHR '':'', NUL],
                    [DQUOTE, CHR ''2'', CHR ''0'', DQUOTE, CHR '':'', NUL]]) = 2"
proof -
  let ?enc = "\<lambda>(staged::bool) l. Encoded (l @ [NUL]) (int (length l) + 1)"
  let ?ret = "[[DQUOTE, CHR ''1'', CHR ''0'', DQUOTE, CHR '':'', NUL],
               [DQUOTE, CHR ''2'', CHR ''0'', DQUOTE, CHR '':'', NUL]]"
  have 1: "\<exists>items. Some [''10'', ''20''] = Some items \<and> int (length items) < 3" by simp
  have 2: "fst (NpyArr_encodeLabels True Some ?enc True (\<lambda>i. True) (Some [''10'', ''20'']) 2) = Some ?ret"
    by (simp add: NpyArr_encodeLabels_def encodeLabels_loop.simps label_bytes_def DQUOTE_def NUL_def)
  note T3 = NpyArr_encodeLabels_size_mismatch[of True Some ?enc True "\<lambda>i. True" "Some [''10'', ''20'']" 3]
  note T2 = NpyArr_encodeLabels_size_mismatch[of True Some ?enc True "\<lambda>i. True" "Some [''10'', ''20'']" 2]
  from T3 1 have a: "snd (NpyArr_encodeLabels True Some ?enc True (\<lambda>i. True) (Some [''10'', ''20'']) 3)
     = Some (ValueError ''Label array sizes do not match corresponding data shape'')"
    by (elim conjE) (erule iffD2, assumption)
  from T2 2 have b: "int (length ?ret) = 2"
    by (elim conjE) (erule allE[of _ ?ret], simp)
  from a 2 b show ?thesis by (intro conjI)
qed


lemma strlen_terminated:
  "NUL \<notin> set s \<Longrightarrow> strlen (s @ NUL # rest) = int (length s)"
  by (induction s) (auto simp: strlen_def)

lemma nat_int_length [simp]:
  "nat (1 + int n) = Suc n" "nat (2 + int n) = Suc (Suc n)"
  by simp_all

lemma label_bytes_needs_quotes:
  assumes "s \<noteq> []" and "hd s \<noteq> DQUOTE"
  shows "label_bytes (s @ NUL # rest) (int (length s) + 1) = [DQUOTE] @ s @ [DQUOTE, CHR '':'', NUL]"
  using assms by (cases s) (simp_all add: label_bytes_def Let_def)

lemma label_bytes_quoted:
  assumes "hd s = DQUOTE" and "2 \<le> length s" and "last s = DQUOTE"
  shows "label_bytes (s @ NUL # rest) (int (length s) + 1) =
           [DQUOTE] @ butlast (tl s) @ [DQUOTE, CHR '':'', NUL]"
proof -
  from assms obtain m where s: "s = DQUOTE # m @ [DQUOTE]"
    by (cases s; cases "tl s" rule: rev_cases) auto
  then show ?thesis by (simp add: label_bytes_def Let_def butlast_append)
qed

lemma label_bytes_layout:
  assumes "s \<noteq> []" and "hd s = DQUOTE \<longrightarrow> 2 \<le> length s \<and> last s = DQUOTE"
  shows "label_bytes (s @ NUL # rest) (int (length s) + 1) =
           [DQUOTE] @ (if hd s = DQUOTE then butlast (tl s) else s) @ [DQUOTE, CHR '':'', NUL]"
  using assms label_bytes_needs_quotes[of s rest] label_bytes_quoted[of s rest]
  by (cases "hd s = DQUOTE") simp_all

lemma DataFrame_iterGetName_trim:
  assumes "orig = INDEX \<or> orig = COLUMNS" and "0 \<le> i" and "NUL \<notin> set inner"
      and "labels ! nat i = [DQUOTE] @ inner @ [DQUOTE, CHR '':'', NUL]"
  shows "DataFrame_iterGetName orig cStr labels (i + 1) = Some inner"
proof -
  have nul: "NUL \<noteq> DQUOTE" "NUL \<noteq> CHR '':''" by (simp_all add: NUL_def DQUOTE_def)
  have "NUL \<notin> set ([DQUOTE] @ inner @ [DQUOTE, CHR '':''])" using assms(3) nul by auto
  from strlen_terminated[OF this, of "[]"]
  have len: "strlen (labels ! nat i) = int (length inner) + 3" using assms(4) by simp
  show ?thesis using assms(1,2,4) len
    by (auto simp: DataFrame_iterGetName_def Let_def)
qed

lemma encodeLabels_loop_result:
  "fst (encodeLabels_loop numeric getitem encode alloc items num i ret) = Some r \<Longrightarrow>
   int (length ret) = i \<Longrightarrow>
   \<exists>suf. r = ret @ suf \<and>
     (\<forall>k < length suf. \<exists>item c off.
        (if numeric then Some (items ! (length ret + k)) else getitem (items ! (length ret + k)))
          = Some item \<and>
        encode numeric item = Encoded c off \<and> suf ! k = label_bytes c off)"
proof (induction numeric getitem encode alloc items num i ret rule: encodeLabels_loop.induct)
  case (1 numeric getitem encode alloc items num i ret)
  show ?case
  proof (cases "i < num")
    case False
    with "1.prems" have "r = ret" by (subst (asm) encodeLabels_loop.simps) simp
    then show ?thesis by simp
  next
    case True
    from "1.prems"(1) True obtain item cLabel off where
      item: "(if numeric then Some (items ! nat i) else getitem (items ! nat i)) = Some item"
      and e: "encode numeric item = Encoded cLabel off" and al: "alloc (nat i)"
      and r: "fst (encodeLabels_loop numeric getitem encode alloc items num (i + 1)
                (ret @ [label_bytes cLabel off])) = Some r"
      by (subst (asm) encodeLabels_loop.simps)
         (auto split: option.splits label_encoding.splits if_splits)
    from "1.prems"(2) have len: "int (length (ret @ [label_bytes cLabel off])) = i + 1" by simp
    have "\<exists>suf. r = (ret @ [label_bytes cLabel off]) @ suf \<and>
      (\<forall>k < length suf. \<exists>item c off'.
        (if numeric then Some (items ! (length (ret @ [label_bytes cLabel off]) + k))
         else getitem (items ! (length (ret @ [label_bytes cLabel off]) + k))) = Some item \<and>
        encode numeric item = Encoded c off' \<and> suf ! k = label_bytes c off')"
      by (rule "1.IH"[OF True item e _ r len]) (use al in simp)
    then obtain suf where
      suf: "r = (ret @ [label_bytes cLabel off]) @ suf"
      and nth: "\<forall>k < length suf. \<exists>item c off'.
        (if numeric then Some (items ! (length (ret @ [label_bytes cLabel off]) + k))
         else getitem (items ! (length (ret @ [label_bytes cLabel off]) + k))) = Some item \<and>
        encode numeric item = Encoded c off' \<and> suf ! k = label_bytes c off'"
      by blast
    have i: "nat i = length ret" using "1.prems"(2) by auto
    show ?thesis
    proof (intro exI[of _ "label_bytes cLabel off # suf"] conjI allI impI)
      show "r = ret @ label_bytes cLabel off # suf" using suf by simp
    next
      fix k assume k: "k < length (label_bytes cLabel off # suf)"
      show "\<exists>item c off'.
        (if numeric then Some (items ! (length ret + k)) else getitem (items ! (length ret + k)))
          = Some item \<and>
        encode numeric item = Encoded c off' \<and> (label_bytes cLabel off # suf) ! k = label_bytes c off'"
      proof (cases k)
        case 0
        with item e i show ?thesis by auto
      next
        case (Suc k')
        with k nth have "\<exists>item c off'.
          (if numeric then Some (items ! (length (ret @ [label_bytes cLabel off]) + k'))
           else getitem (items ! (length (ret @ [label_bytes cLabel off]) + k'))) = Some item \<and>
          encode numeric item = Encoded c off' \<and> suf ! k' = label_bytes c off'"
          by simp
        with Suc show ?thesis by (auto split: if_splits)
      qed
    qed
  qed
qed

lemma NpyArr_encodeLabels_result:
  assumes "fst (NpyArr_encodeLabels numeric getitem encode alloc_ret alloc labels num) = Some ret"
      and "k < length ret"
  shows "\<exists>x c off. encode numeric x = Encoded c off \<and> ret ! k = label_bytes c off"
proof -
  from assms(1) obtain items where
    "fst (encodeLabels_loop numeric getitem encode alloc items num 0 []) = Some ret"
    by (cases labels) (auto simp: NpyArr_encodeLabels_def split: if_splits)
  from encodeLabels_loop_result[OF this] assms(2) show ?thesis by fastforce
qed

text \<open>
  Claim C8. Let the writer leave the label's encoded form \<open>s\<close> in its buffer, followed by
  its terminator, with \<^verbatim>\<open>enc->offset\<close> one past the terminator; \<open>s\<close> is not empty, holds
  no terminator, and ends with a double quote if it begins with one. Then every slice
  that \<^verbatim>\<open>NpyArr_encodeLabels\<close> returns is a double quote, the inner bytes of the label,
  a double quote, a colon and the terminator, whether or not \<open>s\<close> brought its quotes;
  and \<^verbatim>\<open>DataFrame_iterGetName\<close> in the index and columns forms hands out exactly the
  inner bytes.
\<close>

theorem pre_encoded_label_layout:
  assumes "\<forall>staged x c off. encode staged x = Encoded c off \<longrightarrow>
             (\<exists>s rest. c = s @ NUL # rest \<and> off = int (length s) + 1 \<and> s \<noteq> [] \<and> NUL \<notin> set s \<and>
                (hd s = DQUOTE \<longrightarrow> 2 \<le> length s \<and> last s = DQUOTE))"
      and "fst (NpyArr_encodeLabels numeric getitem encode alloc_ret alloc labels num) = Some ret"
      and "k < length ret"
      and "orig = INDEX \<or> orig = COLUMNS"
  shows "\<exists>s x rest.
           encode numeric x = Encoded (s @ NUL # rest) (int (length s) + 1) \<and>
           ret ! k = [DQUOTE] @ (if hd s = DQUOTE then butlast (tl s) else s) @ [DQUOTE, CHR '':'', NUL] \<and>
           DataFrame_iterGetName orig cStr ret (int k + 1) =
             Some (if hd s = DQUOTE then butlast (tl s) else s)"
proof -
  from NpyArr_encodeLabels_result[OF assms(2,3)] obtain x c off where
    e: "encode numeric x = Encoded c off" and r: "ret ! k = label_bytes c off"
    by blast
  from assms(1) e obtain s rest where
    c: "c = s @ NUL # rest" and off: "off = int (length s) + 1" and s: "s \<noteq> []"
    and nul: "NUL \<notin> set s" and q: "hd s = DQUOTE \<longrightarrow> 2 \<le> length s \<and> last s = DQUOTE"
    by blast
  let ?inner = "if hd s = DQUOTE then butlast (tl s) else s"
  have layout: "ret ! k = [DQUOTE] @ ?inner @ [DQUOTE, CHR '':'', NUL]"
    unfolding r c off by (rule label_bytes_layout[OF s q])
  have "set (butlast (tl s)) \<subseteq> set s"
    by (meson in_set_butlastD list.set_sel(2) subsetI tl_Nil in_set_butlastD empty_iff list.set(1) s)
  with nul have "NUL \<notin> set ?inner" by auto
  from DataFrame_iterGetName_trim[OF assms(4) _ this, of "int k" ret cStr] layout
  have "DataFrame_iterGetName orig cStr ret (int k + 1) = Some ?inner" by simp
  with e layout show ?thesis unfolding c off by blast
qed

theorem pre_encoded_label_layout_witness:
  "\<exists>s x rest.
     (\<lambda>(staged :: bool) l.
         if l \<noteq> [] \<and> NUL \<notin> set l \<and> (hd l \<noteq> DQUOTE \<or> 2 \<le> length l \<and> last l = DQUOTE)
         then Encoded (l @ [NUL]) (int (length l) + 1) else Encode_failed) True x
       = Encoded (s @ NUL # rest) (int (length s) + 1) \<and>
     [[DQUOTE, CHR ''1'', CHR ''0'', DQUOTE, CHR '':'', NUL],
      [DQUOTE, CHR ''a'', DQUOTE, CHR '':'', NUL]] ! 1
       = [DQUOTE] @ (if hd s = DQUOTE then butlast (tl s) else s) @ [DQUOTE, CHR '':'', NUL] \<and>
     DataFrame_iterGetName INDEX []
       [[DQUOTE, CHR ''1'', CHR ''0'', DQUOTE, CHR '':'', NUL],
        [DQUOTE, CHR ''a'', DQUOTE, CHR '':'', NUL]] (int 1 + 1)
       = Some (if hd s = DQUOTE then butlast (tl s) else s)"
proof -
  let ?enc = "\<lambda>(staged :: bool) l.
         if l \<noteq> [] \<and> NUL \<notin> set l \<and> (hd l \<noteq> DQUOTE \<or> 2 \<le> length l \<and> last l = DQUOTE)
         then Encoded (l @ [NUL]) (int (length l) + 1) else Encode_failed"
  let ?ret = "[[DQUOTE, CHR ''1'', CHR ''0'', DQUOTE, CHR '':'', NUL],
               [DQUOTE, CHR ''a'', DQUOTE, CHR '':'', NUL]]"
  let ?labels = "Some [''10'', [DQUOTE, CHR ''a'', DQUOTE]]"
  have 1: "\<forall>staged x c off. ?enc staged x = Encoded c off \<longrightarrow>
             (\<exists>s rest. c = s @ NUL # rest \<and> off = int (length s) + 1 \<and> s \<noteq> [] \<and> NUL \<notin> set s \<and>
                (hd s = DQUOTE \<longrightarrow> 2 \<le> length s \<and> last s = DQUOTE))"
    by (auto split: if_splits)
  have 2: "fst (NpyArr_encodeLabels True Some ?enc True (\<lambda>i. True) ?labels 2) = Some ?ret"
    by (simp add: NpyArr_encodeLabels_def encodeLabels_loop.simps label_bytes_def DQUOTE_def NUL_def)
  have 3: "1 < length ?ret" by simp
  have 4: "INDEX = INDEX \<or> INDEX = COLUMNS" by simp
  show ?thesis
    by (rule pre_encoded_label_layout[of ?enc True Some True "\<lambda>i. True" ?labels 2 ?ret 1 INDEX "[]",
          OF 1 2 3 4])
qed


section \<open>Properties of the table driver\<close>

lemma DataFrame_iterBegin_snapshot:
  "DataFrame_iterBegin malloc_cStr call_method malloc_frame enc tc = (enc1, tc1, err) \<Longrightarrow>
   originalOutputFormat enc1 = outputFormat enc"
  by (auto simp: DataFrame_iterBegin_def Let_def split: if_splits option.splits)

lemma DataFrame_iterBegin_forced:
  "DataFrame_iterBegin malloc_cStr call_method malloc_frame enc tc = (enc1, tc1, None) \<Longrightarrow>
   outputFormat enc1 =
     (if outputFormat enc = SPLIT then VALUES
      else if outputFormat enc = RECORDS then INDEX else outputFormat enc)"
  by (auto simp: DataFrame_iterBegin_def Let_def split: if_splits option.splits)

lemma DataFrame_iterEnd_restores:
  "DataFrame_iterEnd enc tc = Inr enc' \<Longrightarrow> outputFormat enc' = originalOutputFormat enc"
  by (auto simp: DataFrame_iterEnd_def split: if_splits)

text \<open>
  Claim C3, as the code has it. When \<^verbatim>\<open>DataFrame_iterBegin\<close> raises no error, it stores
  the orientation in the encoder's \<^verbatim>\<open>originalOutputFormat\<close> slot and forces \<open>VALUES\<close>
  when the orientation was \<open>SPLIT\<close> and \<open>INDEX\<close> when it was \<open>RECORDS\<close>.
  \<^verbatim>\<open>DataFrame_iterEnd\<close> sets the orientation to what the slot holds; that is the
  orientation from before the begin whenever the slot still holds what the begin stored.
  The encoder has one slot, so a table nested in the table overwrites it.
\<close>

theorem DataFrame_orientation_scope:
  assumes "DataFrame_iterBegin malloc_cStr call_method malloc_frame enc tc = (enc1, tc1, None)"
  shows "originalOutputFormat enc1 = outputFormat enc
       \<and> outputFormat enc1 =
           (if outputFormat enc = SPLIT then VALUES
            else if outputFormat enc = RECORDS then INDEX else outputFormat enc)
       \<and> (\<forall>enc2 tc2 enc3.
             originalOutputFormat enc2 = originalOutputFormat enc1 \<longrightarrow>
             DataFrame_iterEnd enc2 tc2 = Inr enc3 \<longrightarrow>
             outputFormat enc3 = outputFormat enc)"
  using DataFrame_iterBegin_snapshot[OF assms] DataFrame_iterBegin_forced[OF assms]
  by (auto dest: DataFrame_iterEnd_restores)

theorem DataFrame_orientation_scope_witness:
  "originalOutputFormat
     \<lparr> forceASCII = True, encodeHTMLChars = False, doublePrecision = 10,
       npyCtxtPassthru = False, npyType = - 1, npyValue = 0,
       datetimeIso = False, datetimeUnit = NPY_FR_ms,
       outputFormat = INDEX, originalOutputFormat = RECORDS, defaultHandler = False \<rparr>
     = outputFormat
     \<lparr> forceASCII = True, encodeHTMLChars = False, doublePrecision = 10,
       npyCtxtPassthru = False, npyType = - 1, npyValue = 0,
       datetimeIso = False, datetimeUnit = NPY_FR_ms,
       outputFormat = RECORDS, originalOutputFormat = COLUMNS, defaultHandler = False \<rparr>
   \<and> outputFormat
     \<lparr> forceASCII = True, encodeHTMLChars = False, doublePrecision = 10,
       npyCtxtPassthru = False, npyType = - 1, npyValue = 0,
       datetimeIso = False, datetimeUnit = NPY_FR_ms,
       outputFormat = INDEX, originalOutputFormat = RECORDS, defaultHandler = False \<rparr> = INDEX
   \<and> DataFrame_iterEnd
       \<lparr> forceASCII = True, encodeHTMLChars = False, doublePrecision = 10,
         npyCtxtPassthru = False, npyType = - 1, npyValue = 0,
         datetimeIso = False, datetimeUnit = NPY_FR_ms,
         outputFormat = INDEX, originalOutputFormat = RECORDS, defaultHandler = False \<rparr>
       \<lparr> df_index = 2, df_cStr = None, df_frame = Some (7 :: nat),
         df_iterNext = DataFrame_iterNext_fn \<rparr>
     = Inr \<lparr> forceASCII = True, encodeHTMLChars = False, doublePrecision = 10,
             npyCtxtPassthru = False, npyType = - 1, npyValue = 0,
             datetimeIso = False, datetimeUnit = NPY_FR_ms,
             outputFormat = RECORDS, originalOutputFormat = RECORDS, defaultHandler = False \<rparr>"
proof -
  let ?enc = "\<lparr> forceASCII = True, encodeHTMLChars = False, doublePrecision = 10,
       npyCtxtPassthru = False, npyType = - 1, npyValue = 0,
       datetimeIso = False, datetimeUnit = NPY_FR_ms,
       outputFormat = RECORDS, originalOutputFormat = COLUMNS, defaultHandler = False \<rparr>"
  let ?enc1 = "\<lparr> forceASCII = True, encodeHTMLChars = False, doublePrecision = 10,
       npyCtxtPassthru = False, npyType = - 1, npyValue = 0,
       datetimeIso = False, datetimeUnit = NPY_FR_ms,
       outputFormat = INDEX, originalOutputFormat = RECORDS, defaultHandler = False \<rparr>"
  let ?tc = "\<lparr> df_index = 5, df_cStr = None, df_frame = None :: nat option,
       df_iterNext = DataFrame_iterNext_fn \<rparr>"
  let ?tc1 = "\<lparr> df_index = 0, df_cStr = None, df_frame = Some (7 :: nat),
       df_iterNext = DataFrame_iterNext_fn \<rparr>"
  let ?tc2 = "\<lparr> df_index = 2, df_cStr = None, df_frame = Some (7 :: nat),
       df_iterNext = DataFrame_iterNext_fn \<rparr>"
  have b: "DataFrame_iterBegin None (\<lambda>m. if m = ''iterrows'' then Some 7 else None) True ?enc ?tc
             = (?enc1, ?tc1, None)"
    by (simp add: DataFrame_iterBegin_def Let_def)
  have e: "DataFrame_iterEnd ?enc1 ?tc2 = Inr (?enc1\<lparr> outputFormat := RECORDS \<rparr>)"
    by (simp add: DataFrame_iterEnd_def)
  from DataFrame_orientation_scope[OF b] e show ?thesis by simp
qed

text \<open>
  A table in the records form with a table nested in one of its cells: outer begin,
  inner begin, inner end, outer end. The outer begin saw \<open>RECORDS\<close>; after the outer end
  the orientation is \<open>INDEX\<close>.
\<close>

theorem DataFrame_nested_table_counterexample:
  "(case DataFrame_iterBegin None (\<lambda>m. Some (1 :: nat)) True
           \<lparr> forceASCII = True, encodeHTMLChars = False, doublePrecision = 10,
             npyCtxtPassthru = False, npyType = - 1, npyValue = 0,
             datetimeIso = False, datetimeUnit = NPY_FR_ms,
             outputFormat = RECORDS, originalOutputFormat = RECORDS, defaultHandler = False \<rparr>
           \<lparr> df_index = 0, df_cStr = None, df_frame = None, df_iterNext = DataFrame_iterNext_fn \<rparr> of
      (outer_enc, outer_tc, outer_err) \<Rightarrow>
        (case DataFrame_iterBegin None (\<lambda>m. Some (2 :: nat)) True outer_enc
                \<lparr> df_index = 0, df_cStr = None, df_frame = None, df_iterNext = DataFrame_iterNext_fn \<rparr> of
           (inner_enc, inner_tc, inner_err) \<Rightarrow>
             (outer_err, inner_err, outputFormat outer_enc,
              map_sum id outputFormat (DataFrame_iterEnd inner_enc inner_tc),
              map_sum id outputFormat
                (case DataFrame_iterEnd inner_enc inner_tc of
                   Inl e \<Rightarrow> Inl e
                 | Inr enc_after_inner \<Rightarrow> DataFrame_iterEnd enc_after_inner outer_tc))))
   = (None, None, INDEX, Inr INDEX, Inr INDEX) \<and> INDEX \<noteq> RECORDS"
  by (simp add: DataFrame_iterBegin_def DataFrame_iterEnd_def Let_def)


section \<open>Properties of the type dispatcher\<close>

lemma get_nat_ms: "int64_div get_nat 1000000 = word_of_int (- 9223372036854)"
  by (simp add: int64_div_def get_nat_def signed_divide_int_def)

lemma NaT_datetime_scalar_is_null:
  "npyType enc < 0 \<Longrightarrow>
   jt_type (fst (Object_beginTypeContext np mem True handler labelled enc err
                   (Some (NpyDatetimeScalar get_nat)))) = JT_NULL"
  by (simp add: Object_beginTypeContext_def Let_def)

lemma NaT_object_is_null:
  "npyType enc < 0 \<Longrightarrow>
   jt_type (fst (Object_beginTypeContext np mem True handler labelled enc err
                   (Some (PyDateTime True)))) = JT_NULL"
  by (simp add: Object_beginTypeContext_def Let_def)

lemma NaT_array_element_is_null:
  "0 \<le> npyType enc \<Longrightarrow> PyTypeNum_ISDATETIME np (npyType enc) \<Longrightarrow>
   \<not> PyTypeNum_ISFLOAT np (npyType enc) \<Longrightarrow> as_int64 (mem (npyValue enc)) = get_nat \<Longrightarrow>
   jt_type (fst (Object_beginTypeContext np mem malloc_ok handler labelled enc err (Some obj))) = JT_NULL"
  by (simp add: Object_beginTypeContext_def NpyTypeToJSONType_def Let_def)

lemma NaT_timedelta_ns_is_null:
  "npyType enc < 0 \<Longrightarrow> datetimeUnit enc = NPY_FR_ns \<Longrightarrow> \<not> is_OverflowError err \<Longrightarrow>
   jt_type (fst (Object_beginTypeContext np mem True handler labelled enc err
                   (Some (PyDelta (Some (- (2 ^ 63))) ns)))) = JT_NULL"
  by (simp add: Object_beginTypeContext_def PyLong_AsLongLong_def get_nat_def Let_def)

text \<open>
  Claim C1. A NaT datetime scalar and a NaT element of a datetime array become JSON null
  under both date modes and every unit (the four lemmas above, which hold for every
  encoder). A timedelta is scaled to the date unit before it is compared with NaT: with
  the unit ns a NaT timedelta becomes null, with the unit ms (the default) it becomes
  the integer -9223372036854.
\<close>

theorem NaT_timedelta_is_a_number_in_milliseconds:
  "Object_beginTypeContext np mem True handler labelled
      (enc\<lparr> npyType := - 1, datetimeUnit := NPY_FR_ms \<rparr>) None
      (Some (PyDelta (Some (- (2 ^ 63))) ns))
   = (\<lparr> jt_type = JT_LONG, prv = prv_created, PyTypeToJSON = Some PyLongToINT64,
         longValue = word_of_int (- 9223372036854), iter_driver = None \<rparr>,
      enc\<lparr> npyType := - 1, datetimeUnit := NPY_FR_ms \<rparr>, None)"
  by (simp add: Object_beginTypeContext_def PyLong_AsLongLong_def is_OverflowError_def
        int64_div_def get_nat_def signed_divide_int_def Let_def)

lemma dispatch_passthru:
  "npyType enc < 0 \<Longrightarrow> npyCtxtPassthru enc \<Longrightarrow>
   Object_beginTypeContext np mem True handler lab enc err (Some (PyArray a)) =
     (\<lparr> jt_type = (if lab then JT_OBJECT else JT_ARRAY), prv = prv_created, PyTypeToJSON = None,
        longValue = 0, iter_driver = Some NpyArrPassThru_driver \<rparr>,
      enc\<lparr> npyCtxtPassthru := False \<rparr>, err)"
  by (simp add: Object_beginTypeContext_def Let_def)

lemma NpyTypeToJSONType_driver:
  "iter_driver (NpyTypeToJSONType np mem isoD t v tc) = iter_driver tc"
  by (simp add: NpyTypeToJSONType_def Let_def)

lemma NpyTypeToJSONType_datetime:
  "PyTypeNum_ISDATETIME np t \<Longrightarrow> jt_type (NpyTypeToJSONType np mem isoD t v tc) \<noteq> JT_INVALID"
  by (simp add: NpyTypeToJSONType_def Let_def)

lemma dispatch_staged:
  assumes "0 \<le> npyType enc" and "PyTypeNum_ISDATETIME np (npyType enc)"
  shows "\<exists>jtc. Object_beginTypeContext np mem malloc_ok handler lab enc err (Some obj) =
           (jtc, enc\<lparr> npyCtxtPassthru := False, npyType := - 1 \<rparr>, err) \<and> iter_driver jtc = None"
  using assms NpyTypeToJSONType_datetime[OF assms(2), of mem "datetimeIso enc" "npyValue enc"]
  by (simp add: Object_beginTypeContext_def Let_def NpyTypeToJSONType_driver)

lemma dispatch_scalar_encoder:
  assumes "npyType enc < 0"
      and "Object_beginTypeContext np mem malloc_ok handler lab enc err x = (jtc, enc', err')"
      and "iter_driver jtc = None"
  shows "enc' = enc"
proof (cases x)
  case None
  with assms show ?thesis by (simp add: Object_beginTypeContext_def Let_def)
next
  case (Some obj)
  with assms show ?thesis
    by (cases obj)
       (auto simp: Object_beginTypeContext_def Let_def split: if_splits prod.splits option.splits)
qed


section \<open>Properties of the numeric-array strider\<close>

subsection \<open>Axes, sizes and strides by depth\<close>

lemma depth_dims_length [simp]: "length (depth_dims a tr) = length (PyArray_DIMS a)"
  by (simp add: depth_dims_def)

lemma depth_strides_length [simp]: "length (depth_strides a tr) = length (PyArray_STRIDES a)"
  by (simp add: depth_strides_def)

lemma depth_axis_range:
  "j < length (PyArray_DIMS a) \<Longrightarrow>
   0 \<le> depth_axis a tr j \<and> depth_axis a tr j < int (length (PyArray_DIMS a))"
  by (auto simp: depth_axis_def PyArray_NDIM_def)

lemma depth_dims_nth:
  "j < length (PyArray_DIMS a) \<Longrightarrow> PyArray_DIMS a ! nat (depth_axis a tr j) = depth_dims a tr ! j"
proof (cases tr)
  case True
  assume j: "j < length (PyArray_DIMS a)"
  then have "nat (int (length (PyArray_DIMS a)) - 1 - int j) = length (PyArray_DIMS a) - Suc j"
    by linarith
  with True j show ?thesis
    by (simp add: depth_axis_def depth_dims_def PyArray_NDIM_def rev_nth)
qed (simp add: depth_axis_def depth_dims_def)

lemma depth_strides_nth:
  "j < length (PyArray_STRIDES a) \<Longrightarrow> length (PyArray_STRIDES a) = length (PyArray_DIMS a) \<Longrightarrow>
   PyArray_STRIDES a ! nat (depth_axis a tr j) = depth_strides a tr ! j"
proof (cases tr)
  case True
  assume j: "j < length (PyArray_STRIDES a)" and l: "length (PyArray_STRIDES a) = length (PyArray_DIMS a)"
  then have "nat (int (length (PyArray_DIMS a)) - 1 - int j) = length (PyArray_STRIDES a) - Suc j"
    by linarith
  with True j l show ?thesis
    by (simp add: depth_axis_def depth_strides_def PyArray_NDIM_def rev_nth)
qed (simp add: depth_axis_def depth_strides_def)

lemma PyArray_DIM_depth:
  "j < length (PyArray_DIMS a) \<Longrightarrow> PyArray_DIM a (depth_axis a tr j) = Some (depth_dims a tr ! j)"
  using depth_axis_range[of j a tr] by (simp add: PyArray_DIM_def depth_dims_nth)

lemma PyArray_STRIDE_depth:
  "j < length (PyArray_DIMS a) \<Longrightarrow> length (PyArray_STRIDES a) = length (PyArray_DIMS a) \<Longrightarrow>
   PyArray_STRIDE a (depth_axis a tr j) = Some (depth_strides a tr ! j)"
  using depth_axis_range[of j a tr] by (simp add: PyArray_STRIDE_def depth_strides_nth)

lemma depth_axis_inj [simp]: "depth_axis a tr j = depth_axis a tr j' \<longleftrightarrow> j = j'"
  by (auto simp: depth_axis_def)

lemma depth_axis_Suc:
  "depth_axis a tr (Suc c) = depth_axis a tr c + (if tr then - 1 else 1)"
  by (simp add: depth_axis_def)

lemma depth_axis_back:
  "j \<le> c \<Longrightarrow> depth_axis a tr c - (if tr then - 1 else 1) * (int c - int j) = depth_axis a tr j"
  by (simp add: depth_axis_def)

lemma offset_above_upd [simp]:
  "c \<le> m \<Longrightarrow> offset_above a tr c (ix(depth_axis a tr m := v)) = offset_above a tr c ix"
  unfolding offset_above_def by (intro arg_cong[where f = sum_list] map_cong) auto

lemma leaves_above_upd [simp]:
  "c \<le> m \<Longrightarrow> leaves_above a tr c (ix(depth_axis a tr m := v)) = leaves_above a tr c ix"
  unfolding leaves_above_def by (intro arg_cong[where f = sum_list] map_cong) auto

lemma steps_above_upd [simp]:
  "c \<le> m \<Longrightarrow> steps_above a tr c (ix(depth_axis a tr m := v)) = steps_above a tr c ix"
  unfolding steps_above_def by (intro arg_cong[where f = sum_list] map_cong) auto

lemma offset_above_Suc:
  "offset_above a tr (Suc c) ix =
     offset_above a tr c ix + depth_strides a tr ! c * (ix (depth_axis a tr c) - 1)"
  by (simp add: offset_above_def)

lemma leaves_above_Suc:
  "leaves_above a tr (Suc c) ix =
     leaves_above a tr c ix + (ix (depth_axis a tr c) - 1) * prod_list (drop (Suc c) (depth_dims a tr))"
  by (simp add: leaves_above_def)

lemma steps_above_Suc:
  "steps_above a tr (Suc c) ix =
     steps_above a tr c ix +
       ((depth_dims a tr ! c - ix (depth_axis a tr c)) * elem_cost (drop (Suc c) (depth_dims a tr)) + 1)"
  by (simp add: steps_above_def)

lemma prod_list_drop:
  "c < length ds \<Longrightarrow> prod_list (drop c ds) = ds ! c * prod_list (drop (Suc c) (ds :: int list))"
  by (simp flip: Cons_nth_drop_Suc)

lemma walk_cost_drop:
  "c < length ds \<Longrightarrow> walk_cost (drop c ds) = ds ! c * elem_cost (drop (Suc c) ds) + 1"
  by (simp add: elem_cost_def flip: Cons_nth_drop_Suc)



lemma elem_cost_drop:
  "Suc c < length ds \<Longrightarrow> elem_cost (drop (Suc c) ds) = 1 + walk_cost (drop (Suc c) ds)"
  by (simp add: elem_cost_def)

lemma elem_cost_last:
  "Suc c = length ds \<Longrightarrow> elem_cost (drop (Suc c) ds) = 1"
  by (simp add: elem_cost_def)


subsection \<open>One step of the strider\<close>

lemma strider_at_descend:
  assumes n: "strider_at a tr c n" and c: "Suc (Suc c) \<le> length (PyArray_DIMS a)"
      and i: "index n (stridedim n) < dim n"
      and A1: "length (PyArray_STRIDES a) = length (PyArray_DIMS a)"
      and A2: "\<forall>d\<in>set (PyArray_DIMS a). 0 \<le> d"
  shows "\<exists>n'. NpyArr_iterNext np getitem obj tc n enc None =
            Some (True, tc\<lparr> itemValue := Some (PyArray a) \<rparr>, n', enc\<lparr> npyCtxtPassthru := True \<rparr>, None)
          \<and> strider_at a tr (Suc c) n'
          \<and> index n' = (index n)(depth_axis a tr c := index n (depth_axis a tr c) + 1,
                                  depth_axis a tr (Suc c) := 0)"
proof -
  let ?ix = "(index n)(depth_axis a tr c := index n (depth_axis a tr c) + 1,
                       depth_axis a tr (Suc c) := 0)"
  let ?n' = "n\<lparr> index := ?ix, curdim := int (Suc c), stridedim := depth_axis a tr (Suc c),
               dim := depth_dims a tr ! Suc c, stride := depth_strides a tr ! Suc c \<rparr>"
  from n have f: "array n = a" "ndim n = PyArray_NDIM a - 1" "inc n = (if tr then - 1 else 1)"
    "curdim n = int c" "stridedim n = depth_axis a tr c" "dim n = depth_dims a tr ! c"
    "stride n = depth_strides a tr ! c"
    by (simp_all add: strider_at_def)
  from c have c': "Suc c < length (PyArray_DIMS a)" by simp
  have D: "PyArray_DIM a (depth_axis a tr c + (if tr then - 1 else 1)) = Some (depth_dims a tr ! Suc c)"
    using PyArray_DIM_depth[OF c', of tr] by (simp add: depth_axis_Suc)
  have S: "PyArray_STRIDE a (depth_axis a tr c + (if tr then - 1 else 1)) = Some (depth_strides a tr ! Suc c)"
    using PyArray_STRIDE_depth[OF c' A1, of tr] by (simp add: depth_axis_Suc)
  have cur: "\<not> (curdim n \<ge> ndim n \<or> index n (stridedim n) \<ge> dim n)"
    using f c i by (simp add: PyArray_NDIM_def)
  have step: "NpyArr_iterNext np getitem obj tc n enc None =
            Some (True, tc\<lparr> itemValue := Some (PyArray a) \<rparr>, ?n', enc\<lparr> npyCtxtPassthru := True \<rparr>, None)"
    using cur f D S
    by (simp add: NpyArr_iterNext_def Let_def depth_axis_Suc fun_upd_twist del: depth_axis_inj)
  have dd: "0 \<le> depth_dims a tr ! Suc c"
    using A2 c' by (metis depth_dims_length nth_mem depth_dims_def set_rev)
  have at: "strider_at a tr (Suc c) ?n'"
    using n i c dd f
    by (auto simp: strider_at_def offset_above_Suc less_Suc_eq)
  from step at show ?thesis by (intro exI[of _ ?n']) simp
qed

lemma strider_at_stop:
  "dim n \<le> index n (stridedim n) \<Longrightarrow>
   NpyArr_iterNextItem np getitem obj tc n enc None = (False, tc, n, enc, None)"
  by (simp add: NpyArr_iterNextItem_def)

lemma strider_at_leaf:
  assumes n: "strider_at a tr c n" and i: "index n (stridedim n) < dim n"
  shows "\<exists>tc' enc' err' n'.
           NpyArr_iterNextItem np getitem obj tc n enc None = (True, tc', n', enc', err')
         \<and> iterNext tc' = iterNext tc \<and> iterEnd tc' = iterEnd tc
         \<and> (if PyTypeNum_ISDATETIME np (PyArray_TYPE a)
             then itemValue tc' = Some obj \<and> err' = None \<and>
                  enc' = enc\<lparr> npyType := PyArray_TYPE a, npyValue := dataptr n,
                              npyCtxtPassthru := True \<rparr>
             else itemValue tc' = getitem (dataptr n) \<and> enc' = enc \<and>
                  (getitem (dataptr n) \<noteq> None \<longrightarrow> err' = None) \<and>
                  (getitem (dataptr n) = None \<longrightarrow> err' \<noteq> None))
         \<and> strider_at a tr c n' \<and> columnLabels n' = columnLabels n
         \<and> index n' = (index n)(depth_axis a tr c := index n (depth_axis a tr c) + 1)"
proof -
  let ?n' = "n\<lparr> dataptr := dataptr n + stride n,
               index := (index n)(depth_axis a tr c := index n (depth_axis a tr c) + 1) \<rparr>"
  from n have f: "array n = a" "stridedim n = depth_axis a tr c" "dim n = depth_dims a tr ! c"
    "stride n = depth_strides a tr ! c"
    by (simp_all add: strider_at_def)
  have at: "strider_at a tr c ?n'"
    using n i f by (auto simp: strider_at_def algebra_simps)
  show ?thesis
    using i f at
    by (cases "PyTypeNum_ISDATETIME np (PyArray_TYPE a)")
       (simp_all add: NpyArr_iterNextItem_def NpyArr_freeItemValue_def Let_def)
qed

lemma strider_at_pop:
  assumes n: "strider_at a tr (Suc c) n"
      and A1: "length (PyArray_STRIDES a) = length (PyArray_DIMS a)"
  shows "\<exists>tc' n'. NpyArrPassThru_iterEnd tc n = Some (tc', n')
          \<and> strider_at a tr c n' \<and> index n' = index n
          \<and> dataptr n' = dataptr n - stride n * index n (stridedim n) + depth_strides a tr ! c"
proof -
  let ?n' = "n\<lparr> curdim := int c,
               dataptr := dataptr n - stride n * index n (stridedim n) + depth_strides a tr ! c,
               stridedim := depth_axis a tr c,
               dim := depth_dims a tr ! c, stride := depth_strides a tr ! c \<rparr>"
  from n have f: "array n = a" "inc n = (if tr then - 1 else 1)"
    "curdim n = int (Suc c)" "stridedim n = depth_axis a tr (Suc c)" "dim n = depth_dims a tr ! Suc c"
    "stride n = depth_strides a tr ! Suc c" and c: "Suc (Suc c) \<le> length (PyArray_DIMS a)"
    by (simp_all add: strider_at_def)
  from c have c': "c < length (PyArray_DIMS a)" by simp
  have ax: "depth_axis a tr (Suc c) - (if tr then - 1 else 1) = depth_axis a tr c"
    by (simp add: depth_axis_Suc)
  have step: "NpyArrPassThru_iterEnd tc n = Some (NpyArr_freeItemValue ?n' tc, ?n')"
    using f PyArray_DIM_depth[OF c', of tr] PyArray_STRIDE_depth[OF c' A1, of tr] ax
    by (simp add: NpyArrPassThru_iterEnd_def NpyArr_freeItemValue_def Let_def)
  have at: "strider_at a tr c ?n'"
    using n c f
    by (auto simp: strider_at_def offset_above_Suc algebra_simps)
  from step at show ?thesis by simp
qed


subsection \<open>One step of the walk\<close>

lemma iterNext_update_same:
  "iterNext tc = f \<Longrightarrow> tc\<lparr> iterNext := f \<rparr> = tc"
  by auto

lemma well_stacked_hd:
  "iterEnd t' = iterEnd t \<Longrightarrow> well_stacked (t' # ts) = well_stacked (t # ts)"
  by (cases ts) simp_all

lemma steps_left_at:
  "contexts w \<noteq> [] \<Longrightarrow> strider_at a tr c (strider w) \<Longrightarrow>
   steps_left a tr w =
     steps_above a tr c (index (strider w))
     + (depth_dims a tr ! c - index (strider w) (depth_axis a tr c))
         * elem_cost (drop (Suc c) (depth_dims a tr)) + 1"
  by (simp add: steps_left_def strider_at_def Let_def)


lemma walk_step_descend:
  assumes inv: "walk_inv a tr w"
      and A1: "length (PyArray_STRIDES a) = length (PyArray_DIMS a)"
      and A2: "\<forall>d\<in>set (PyArray_DIMS a). 0 \<le> d"
      and c: "Suc (length (contexts w)) \<le> length (PyArray_DIMS a)"
      and i: "index (strider w) (stridedim (strider w)) < dim (strider w)"
  shows "\<exists>w'. walk_step np mem getitem True handler w = Some w'
          \<and> steps_left a tr w' = steps_left a tr w - 1 \<and> walk_inv a tr w'"
proof -
  from inv obtain tc outer where
    ctx: "contexts w = tc # outer" and ws: "well_stacked (tc # outer)"
    and mode: "iterNext tc = NpyArr_iterNext_fn \<or>
         iterNext tc = NpyArr_iterNextItem_fn \<and> Suc (length outer) = length (PyArray_DIMS a)"
    and at: "strider_at a tr (length outer) (strider w)"
    and lv: "int (leaves w) = leaves_above a tr (length outer) (index (strider w))
           + index (strider w) (stridedim (strider w))
             * prod_list (drop (Suc (length outer)) (depth_dims a tr))"
    and enc: "npyType (encoder w) = - 1" "\<not> npyCtxtPassthru (encoder w)" and err: "pyerr w = None"
    by (auto simp: walk_inv_def)
  let ?c = "length outer"
  from c ctx have c2: "Suc (Suc ?c) \<le> length (PyArray_DIMS a)" by simp
  with mode have nxt: "iterNext tc = NpyArr_iterNext_fn" by auto
  from at have arr: "array (strider w) = a" and sd: "stridedim (strider w) = depth_axis a tr ?c"
    by (simp_all add: strider_at_def)
  from strider_at_descend[OF at c2 i A1 A2, of np getitem "PyArray a" tc "encoder w"]
  obtain n' where
    nx: "NpyArr_iterNext np getitem (PyArray a) tc (strider w) (encoder w) None =
            Some (True, tc\<lparr> itemValue := Some (PyArray a) \<rparr>, n',
                  (encoder w)\<lparr> npyCtxtPassthru := True \<rparr>, None)"
    and at': "strider_at a tr (Suc ?c) n'"
    and ix': "index n' = (index (strider w))(depth_axis a tr ?c := index (strider w) (depth_axis a tr ?c) + 1,
                                  depth_axis a tr (Suc ?c) := 0)"
    by blast
  let ?tc1 = "tc\<lparr> itemValue := Some (PyArray a) \<rparr>"
  let ?new = "\<lparr> iterNext = NpyArr_iterNext_fn, iterEnd = NpyArrPassThru_iterEnd_fn,
                itemValue = None, transpose = False, tc_rowLabels = None, tc_columnLabels = None \<rparr>"
  let ?w' = "w\<lparr> strider := n', encoder := (encoder w)\<lparr> npyCtxtPassthru := False \<rparr>, pyerr := None,
                contexts := ?new # ?tc1 # outer, leaves := leaves w \<rparr>"
  have disp: "Object_beginTypeContext np mem True handler (columnLabels n' \<noteq> None)
                ((encoder w)\<lparr> npyCtxtPassthru := True \<rparr>) None (Some (PyArray a)) =
     (\<lparr> jt_type = (if columnLabels n' \<noteq> None then JT_OBJECT else JT_ARRAY), prv = prv_created,
        PyTypeToJSON = None, longValue = 0, iter_driver = Some NpyArrPassThru_driver \<rparr>,
      (encoder w)\<lparr> npyCtxtPassthru := True \<rparr>\<lparr> npyCtxtPassthru := False \<rparr>, None)"
    by (rule dispatch_passthru) (simp_all add: enc)
  have step: "walk_step np mem getitem True handler w = Some ?w'"
    using ctx nxt nx arr err disp
    by (simp add: walk_step_def Object_iterNext_def)
  have sl: "steps_left a tr w = steps_above a tr ?c (index (strider w))
     + (depth_dims a tr ! ?c - index (strider w) (depth_axis a tr ?c))
         * elem_cost (drop (Suc ?c) (depth_dims a tr)) + 1"
    by (rule steps_left_at[OF _ at]) (simp add: ctx)
  have sl': "steps_left a tr ?w' = steps_above a tr (Suc ?c) (index n')
     + (depth_dims a tr ! Suc ?c - index n' (depth_axis a tr (Suc ?c)))
         * elem_cost (drop (Suc (Suc ?c)) (depth_dims a tr)) + 1"
    using steps_left_at[of ?w' a tr "Suc ?c"] at' by simp
  have ec: "elem_cost (drop (Suc ?c) (depth_dims a tr)) =
          1 + (depth_dims a tr ! Suc ?c * elem_cost (drop (Suc (Suc ?c)) (depth_dims a tr)) + 1)"
    using c2 by (simp add: elem_cost_drop walk_cost_drop)
  have dec: "steps_left a tr ?w' = steps_left a tr w - 1"
    unfolding sl sl' ix' using ec by (simp add: steps_above_Suc algebra_simps)
  have lv': "int (leaves ?w') = leaves_above a tr (Suc ?c) (index n')
           + index n' (stridedim n') * prod_list (drop (Suc (Suc ?c)) (depth_dims a tr))"
    using lv at' sd unfolding ix' by (simp add: strider_at_def leaves_above_Suc)
  have inv': "walk_inv a tr ?w'"
    unfolding walk_inv_def
    apply (intro exI[of _ ?new] exI[of _ "?tc1 # outer"])
    using ws nxt at' lv' enc well_stacked_hd[of ?tc1 tc outer]
    by simp
  from step dec inv' show ?thesis by blast
qed

lemma sum_list_depth_axis:
  "(\<Sum>k\<leftarrow>[0..<length (PyArray_DIMS a)]. (f :: int \<Rightarrow> int) (int k)) =
   (\<Sum>j\<leftarrow>[0..<length (PyArray_DIMS a)]. f (depth_axis a tr j))"
proof (cases tr)
  case False
  then show ?thesis by (simp add: depth_axis_def)
next
  case True
  let ?L = "length (PyArray_DIMS a)"
  have "(\<Sum>j\<leftarrow>[0..<?L]. f (depth_axis a tr j)) = (\<Sum>j<?L. f (int (?L - Suc j)))"
    unfolding interv_sum_list_conv_sum_set_nat using True
    by (intro sum.cong) (auto simp: depth_axis_def PyArray_NDIM_def of_nat_diff algebra_simps)
  also have "\<dots> = (\<Sum>k<?L. f (int k))"
    by (rule sum.nat_diff_reindex)
  also have "\<dots> = (\<Sum>k\<leftarrow>[0..<?L]. f (int k))"
    by (simp add: interv_sum_list_conv_sum_set_nat atLeast0LessThan)
  finally show ?thesis by simp
qed

lemma strider_at_element_address:
  assumes at: "strider_at a tr c n" and ck: "Suc c = length (PyArray_DIMS a)"
      and i: "index n (stridedim n) < dim n"
      and A1: "length (PyArray_STRIDES a) = length (PyArray_DIMS a)"
  shows "element_address a (dataptr n)"
proof -
  let ?L = "length (PyArray_DIMS a)"
  let ?at = "\<lambda>k. if k = depth_axis a tr c then index n k else index n k - 1"
  let ?pos = "map (\<lambda>k. ?at (int k)) [0..<?L]"
  from at have f: "stridedim n = depth_axis a tr c" "dim n = depth_dims a tr ! c"
    and lo: "0 \<le> index n (depth_axis a tr c)"
    and ab: "\<forall>j<c. 1 \<le> index n (depth_axis a tr j) \<and> index n (depth_axis a tr j) \<le> depth_dims a tr ! j"
    and dp: "dataptr n = PyArray_DATA a + offset_above a tr c (index n)
                   + depth_strides a tr ! c * index n (depth_axis a tr c)"
    by (simp_all add: strider_at_def)
  have bound: "0 \<le> ?at (depth_axis a tr j) \<and> ?at (depth_axis a tr j) < PyArray_DIMS a ! nat (depth_axis a tr j)"
    if j: "j < ?L" for j
  proof (cases "j = c")
    case True
    with i f lo j show ?thesis by (simp add: depth_dims_nth)
  next
    case False
    with j ck have "j < c" by simp
    with ab have "1 \<le> index n (depth_axis a tr j)" "index n (depth_axis a tr j) \<le> depth_dims a tr ! j"
      by simp_all
    with j False show ?thesis by (simp add: depth_dims_nth)
  qed
  have b: "\<forall>k<length ?pos. 0 \<le> ?pos ! k \<and> ?pos ! k < PyArray_DIMS a ! k"
  proof (intro allI impI)
    fix k assume "k < length ?pos"
    then have k: "k < ?L" by simp
    define j where "j = (if tr then ?L - Suc k else k)"
    from k have jL: "j < ?L" and ax: "depth_axis a tr j = int k"
      by (auto simp: j_def depth_axis_def PyArray_NDIM_def)
    from bound[OF jL] have "0 \<le> ?at (int k) \<and> ?at (int k) < PyArray_DIMS a ! nat (int k)"
      unfolding ax .
    with k show "0 \<le> ?pos ! k \<and> ?pos ! k < PyArray_DIMS a ! k" by (auto split: if_splits)
  qed
  have "(\<Sum>k\<leftarrow>[0..<length ?pos]. PyArray_STRIDES a ! k * ?pos ! k) =
        (\<Sum>k\<leftarrow>[0..<?L]. PyArray_STRIDES a ! nat (int k) * ?at (int k))"
    by (intro arg_cong[where f = sum_list] map_cong) simp_all
  also have "\<dots> = (\<Sum>j\<leftarrow>[0..<?L]. PyArray_STRIDES a ! nat (depth_axis a tr j) * ?at (depth_axis a tr j))"
    by (rule sum_list_depth_axis[of "\<lambda>k. PyArray_STRIDES a ! nat k * ?at k"])
  also have "\<dots> = (\<Sum>j\<leftarrow>[0..<?L]. depth_strides a tr ! j * ?at (depth_axis a tr j))"
    by (intro arg_cong[where f = sum_list] map_cong) (simp_all add: depth_strides_nth A1)
  also have "\<dots> = (\<Sum>j\<leftarrow>[0..<c]. depth_strides a tr ! j * ?at (depth_axis a tr j))
                    + depth_strides a tr ! c * index n (depth_axis a tr c)"
    unfolding ck[symmetric] by simp
  also have "(\<Sum>j\<leftarrow>[0..<c]. depth_strides a tr ! j * ?at (depth_axis a tr j)) =
             offset_above a tr c (index n)"
    unfolding offset_above_def by (intro arg_cong[where f = sum_list] map_cong) simp_all
  finally have s: "(\<Sum>k\<leftarrow>[0..<length ?pos]. PyArray_STRIDES a ! k * ?pos ! k) =
      offset_above a tr c (index n) + depth_strides a tr ! c * index n (depth_axis a tr c)" .
  show ?thesis
    unfolding element_address_def
    by (rule exI[of _ ?pos]) (use b s dp in simp)
qed

lemma dispatch_not_array:
  assumes "npyType enc < 0" and "\<forall>b. obj \<noteq> PyArray b"
  shows "\<exists>jtc e. Object_beginTypeContext np mem True handler lab enc None (Some obj) = (jtc, enc, e)
           \<and> iter_driver jtc = None"
  using assms
  by (cases obj)
     (auto simp: Object_beginTypeContext_def Let_def split: if_splits prod.splits option.splits)

lemma walk_step_leaf:
  assumes inv: "walk_inv a tr w"
      and A3: "0 \<le> PyArray_TYPE a"
      and ok: "\<not> PyTypeNum_ISDATETIME np (PyArray_TYPE a) \<Longrightarrow>
               \<exists>obj jtc enc'. getitem (dataptr (strider w)) = Some obj \<and>
                  Object_beginTypeContext np mem True handler (columnLabels (strider w) \<noteq> None)
                    (encoder w) None (Some obj) = (jtc, enc', None) \<and> iter_driver jtc = None"
      and c: "length (contexts w) = length (PyArray_DIMS a)"
      and i: "index (strider w) (stridedim (strider w)) < dim (strider w)"
  shows "\<exists>w'. walk_step np mem getitem True handler w = Some w'
          \<and> steps_left a tr w' = steps_left a tr w - 1 \<and> walk_inv a tr w'"
proof -
  from inv obtain tc outer where
    ctx: "contexts w = tc # outer" and ws: "well_stacked (tc # outer)"
    and mode: "iterNext tc = NpyArr_iterNext_fn \<or> iterNext tc = NpyArr_iterNextItem_fn"
    and at: "strider_at a tr (length outer) (strider w)"
    and lv: "int (leaves w) = leaves_above a tr (length outer) (index (strider w))
           + index (strider w) (stridedim (strider w))
             * prod_list (drop (Suc (length outer)) (depth_dims a tr))"
    and enc: "npyType (encoder w) = - 1" "\<not> npyCtxtPassthru (encoder w)" and err: "pyerr w = None"
    by (auto simp: walk_inv_def)
  let ?c = "length outer"
  let ?tc0 = "tc\<lparr> iterNext := NpyArr_iterNextItem_fn \<rparr>"
  from c ctx have ck: "Suc ?c = length (PyArray_DIMS a)" by simp
  from at have arr: "array (strider w) = a" and sd: "stridedim (strider w) = depth_axis a tr ?c"
    and cur: "curdim (strider w) = int ?c" and nd: "ndim (strider w) = PyArray_NDIM a - 1"
    by (simp_all add: strider_at_def)
  have last: "curdim (strider w) \<ge> ndim (strider w)"
    using cur nd ck by (simp add: PyArray_NDIM_def)
  have nx: "Object_iterNext np getitem (PyArray a) tc (strider w) (encoder w) None =
          Some (NpyArr_iterNextItem np getitem (PyArray a) ?tc0 (strider w) (encoder w) None)"
    using mode last by (auto simp: Object_iterNext_def NpyArr_iterNext_def iterNext_update_same)
  from strider_at_leaf[OF at i, of np getitem "PyArray a" ?tc0 "encoder w"]
  obtain tc' enc' err' n' where
    it: "NpyArr_iterNextItem np getitem (PyArray a) ?tc0 (strider w) (encoder w) None
           = (True, tc', n', enc', err')"
    and tc': "iterNext tc' = NpyArr_iterNextItem_fn" "iterEnd tc' = iterEnd tc"
    and item: "if PyTypeNum_ISDATETIME np (PyArray_TYPE a)
             then itemValue tc' = Some (PyArray a) \<and> err' = None \<and>
                  enc' = (encoder w)\<lparr> npyType := PyArray_TYPE a, npyValue := dataptr (strider w),
                              npyCtxtPassthru := True \<rparr>
             else itemValue tc' = getitem (dataptr (strider w)) \<and> enc' = encoder w \<and>
                  (getitem (dataptr (strider w)) \<noteq> None \<longrightarrow> err' = None)"
    and at': "strider_at a tr ?c n'" and cl: "columnLabels n' = columnLabels (strider w)"
    and ix': "index n' = (index (strider w))(depth_axis a tr ?c := index (strider w) (depth_axis a tr ?c) + 1)"
    by auto
  have disp: "\<exists>jtc enc2. Object_beginTypeContext np mem True handler (columnLabels n' \<noteq> None)
                enc' err' (itemValue tc') = (jtc, enc2, None)
              \<and> iter_driver jtc = None \<and> npyType enc2 = - 1 \<and> \<not> npyCtxtPassthru enc2"
  proof (cases "PyTypeNum_ISDATETIME np (PyArray_TYPE a)")
    case True
    with item have e: "itemValue tc' = Some (PyArray a)" "err' = None"
      "enc' = (encoder w)\<lparr> npyType := PyArray_TYPE a, npyValue := dataptr (strider w),
                              npyCtxtPassthru := True \<rparr>"
      by simp_all
    from dispatch_staged[of enc' np mem True handler "columnLabels n' \<noteq> None" None "PyArray a"]
      True A3 e
    show ?thesis by auto
  next
    case False
    with item have e: "itemValue tc' = getitem (dataptr (strider w))" "enc' = encoder w"
      "getitem (dataptr (strider w)) \<noteq> None \<longrightarrow> err' = None"
      by simp_all
    from ok[OF False] cl obtain obj jtc enc2 where
      g: "getitem (dataptr (strider w)) = Some obj"
      and r: "Object_beginTypeContext np mem True handler (columnLabels n' \<noteq> None) (encoder w) None (Some obj)
             = (jtc, enc2, None)" and dr: "iter_driver jtc = None"
      by auto
    from dispatch_scalar_encoder[OF _ r dr] enc have "enc2 = encoder w" by simp
    with r dr e g enc show ?thesis by simp
  qed
  then obtain jtc enc2 where
    r: "Object_beginTypeContext np mem True handler (columnLabels n' \<noteq> None)
                enc' err' (itemValue tc') = (jtc, enc2, None)"
    and dr: "iter_driver jtc = None" and enc2: "npyType enc2 = - 1" "\<not> npyCtxtPassthru enc2"
    by blast
  let ?w' = "w\<lparr> strider := n', encoder := enc2, pyerr := None,
                contexts := tc' # outer, leaves := leaves w + 1 \<rparr>"
  have step: "walk_step np mem getitem True handler w = Some ?w'"
    using ctx nx it arr err r dr tc'
    by (simp add: walk_step_def)
  have sl: "steps_left a tr w = steps_above a tr ?c (index (strider w))
     + (depth_dims a tr ! ?c - index (strider w) (depth_axis a tr ?c))
         * elem_cost (drop (Suc ?c) (depth_dims a tr)) + 1"
    by (rule steps_left_at[OF _ at]) (simp add: ctx)
  have sl': "steps_left a tr ?w' = steps_above a tr ?c (index n')
     + (depth_dims a tr ! ?c - index n' (depth_axis a tr ?c))
         * elem_cost (drop (Suc ?c) (depth_dims a tr)) + 1"
    using steps_left_at[of ?w' a tr ?c] at' by simp
  have dec: "steps_left a tr ?w' = steps_left a tr w - 1"
    unfolding sl sl' ix' using ck by (simp add: elem_cost_def)
  have lv': "int (leaves ?w') = leaves_above a tr ?c (index n')
           + index n' (stridedim n') * prod_list (drop (Suc ?c) (depth_dims a tr))"
    using lv at' sd ck unfolding ix' by (simp add: strider_at_def)
  have inv': "walk_inv a tr ?w'"
    unfolding walk_inv_def
    apply (intro exI[of _ tc'] exI[of _ outer])
    using ws tc' at' lv' enc2 ck well_stacked_hd[of tc' tc outer]
    by simp
  from step dec inv' show ?thesis by blast
qed

lemma depth_dims_prod: "prod_list (depth_dims a tr) = prod_list (PyArray_DIMS a)"
  by (simp add: depth_dims_def prod_list.rev)

lemma walk_step_stop:
  assumes inv: "walk_inv a tr w"
      and A1: "length (PyArray_STRIDES a) = length (PyArray_DIMS a)"
      and i: "dim (strider w) \<le> index (strider w) (stridedim (strider w))"
  shows "\<exists>w'. walk_step np mem getitem True handler w = Some w'
          \<and> steps_left a tr w' = steps_left a tr w - 1
          \<and> (contexts w' = [] \<and> int (leaves w') = prod_list (PyArray_DIMS a) \<or> walk_inv a tr w')"
proof -
  from inv obtain tc outer where
    ctx: "contexts w = tc # outer" and ws: "well_stacked (tc # outer)"
    and mode: "iterNext tc = NpyArr_iterNext_fn \<or> iterNext tc = NpyArr_iterNextItem_fn"
    and at: "strider_at a tr (length outer) (strider w)"
    and lv: "int (leaves w) = leaves_above a tr (length outer) (index (strider w))
           + index (strider w) (stridedim (strider w))
             * prod_list (drop (Suc (length outer)) (depth_dims a tr))"
    and enc: "npyType (encoder w) = - 1" "\<not> npyCtxtPassthru (encoder w)" and err: "pyerr w = None"
    by (auto simp: walk_inv_def)
  let ?c = "length outer"
  let ?tc0 = "tc\<lparr> iterNext := NpyArr_iterNextItem_fn \<rparr>"
  from at have arr: "array (strider w) = a" and sd: "stridedim (strider w) = depth_axis a tr ?c"
    and dm: "dim (strider w) = depth_dims a tr ! ?c"
    and le: "index (strider w) (depth_axis a tr ?c) \<le> depth_dims a tr ! ?c"
    and ck: "Suc ?c \<le> length (PyArray_DIMS a)"
    by (simp_all add: strider_at_def)
  from i le sd dm have full: "index (strider w) (depth_axis a tr ?c) = depth_dims a tr ! ?c" by simp
  have nx: "Object_iterNext np getitem (PyArray a) tc (strider w) (encoder w) None =
          Some (False, ?tc0, strider w, encoder w, None)"
    using mode i strider_at_stop[OF i, of np getitem "PyArray a" _ "encoder w"]
    by (auto simp: Object_iterNext_def NpyArr_iterNext_def iterNext_update_same)
  have sl: "steps_left a tr w = steps_above a tr ?c (index (strider w)) + 1"
    using steps_left_at[OF _ at] ctx full by simp
  show ?thesis
  proof (cases outer)
    case Nil
    with ws have e: "iterEnd tc = NpyArr_iterEnd_fn" by simp
    let ?w' = "w\<lparr> strider := strider w, encoder := encoder w, pyerr := None, contexts := [] \<rparr>"
    have step: "walk_step np mem getitem True handler w = Some ?w'"
      using ctx nx arr err e Nil by (simp add: walk_step_def)
    have "prod_list (depth_dims a tr) = depth_dims a tr ! 0 * prod_list (drop (Suc 0) (depth_dims a tr))"
      using ck by (cases "depth_dims a tr") (simp_all add: depth_dims_def split: if_splits)
    with lv Nil full sd have "int (leaves ?w') = prod_list (PyArray_DIMS a)"
      by (simp add: leaves_above_def depth_dims_prod)
    moreover have "steps_left a tr ?w' = steps_left a tr w - 1"
      unfolding sl using Nil by (simp add: steps_left_def steps_above_def)
    ultimately show ?thesis using step by auto
  next
    case (Cons t' ts)
    with ws have e: "iterEnd tc = NpyArrPassThru_iterEnd_fn"
      and t': "iterNext t' = NpyArr_iterNext_fn" and ws': "well_stacked (t' # ts)"
      by simp_all
    let ?c' = "length ts"
    from Cons have c: "?c = Suc ?c'" by simp
    from at c have at1: "strider_at a tr (Suc ?c') (strider w)" by simp
    from strider_at_pop[OF at1 A1, of ?tc0]
    obtain tc2 n' where
      pop: "NpyArrPassThru_iterEnd ?tc0 (strider w) = Some (tc2, n')"
      and at': "strider_at a tr ?c' n'" and ix': "index n' = index (strider w)"
      by blast
    let ?w' = "w\<lparr> strider := n', encoder := encoder w, pyerr := None, contexts := t' # ts \<rparr>"
    have step: "walk_step np mem getitem True handler w = Some ?w'"
      using ctx nx arr err e Cons pop by (simp add: walk_step_def)
    have sl': "steps_left a tr ?w' = steps_above a tr ?c' (index n')
       + (depth_dims a tr ! ?c' - index n' (depth_axis a tr ?c'))
           * elem_cost (drop (Suc ?c') (depth_dims a tr)) + 1"
      using steps_left_at[of ?w' a tr ?c'] at' by simp
    have dec: "steps_left a tr ?w' = steps_left a tr w - 1"
      unfolding sl sl' ix' c by (simp add: steps_above_Suc)
    from at' have sd': "stridedim n' = depth_axis a tr ?c'" by (simp add: strider_at_def)
    have p: "prod_list (drop (Suc ?c') (depth_dims a tr)) =
          depth_dims a tr ! Suc ?c' * prod_list (drop (Suc (Suc ?c')) (depth_dims a tr))"
      using ck c by (intro prod_list_drop) simp
    have lv': "int (leaves ?w') = leaves_above a tr ?c' (index n')
           + index n' (stridedim n') * prod_list (drop (Suc ?c') (depth_dims a tr))"
      using lv full sd p unfolding ix' sd' c by (simp add: leaves_above_Suc algebra_simps)
    have inv': "walk_inv a tr ?w'"
      unfolding walk_inv_def
      apply (intro exI[of _ t'] exI[of _ ts])
      using ws' t' at' lv' enc
      by simp
    from step dec inv' show ?thesis by blast
  qed
qed



subsection \<open>The whole walk\<close>

lemma walk_begin_inv:
  assumes A0: "PyArray_DIMS a \<noteq> []"
      and A1: "length (PyArray_STRIDES a) = length (PyArray_DIMS a)"
      and A2: "\<forall>d\<in>set (PyArray_DIMS a). 0 \<le> d"
  shows "\<exists>w0. walk_begin garbage a tr enc = Some w0 \<and> walk_inv a tr w0
          \<and> steps_left a tr w0 = walk_cost (depth_dims a tr)"
proof -
  from A0 have k: "0 < length (PyArray_DIMS a)" by simp
  let ?first = "if tr then PyArray_NDIM a - 1 else 0"
  have ax: "depth_axis a tr 0 = ?first" by (simp add: depth_axis_def)
  let ?n = "\<lparr> array = a, dataptr = PyArray_DATA a, curdim = 0,
               stridedim = ?first, inc = (if tr then - 1 else 1),
               dim = depth_dims a tr ! 0, stride = depth_strides a tr ! 0, ndim = PyArray_NDIM a - 1,
               index = garbage(?first := 0), type_num = PyArray_TYPE a,
               rowLabels = None, columnLabels = None \<rparr>"
  let ?tc = "\<lparr> iterNext = NpyArr_iterNext_fn, iterEnd = NpyArr_iterEnd_fn, itemValue = None,
               transpose = tr, tc_rowLabels = None, tc_columnLabels = None \<rparr>"
  let ?w0 = "\<lparr> strider = ?n, encoder = enc\<lparr> npyCtxtPassthru := False, npyType := - 1 \<rparr>,
                 pyerr = None, contexts = [?tc], leaves = 0 \<rparr>"
  have b: "walk_begin garbage a tr enc = Some ?w0"
    using PyArray_DIM_depth[OF k, of tr] PyArray_STRIDE_depth[OF k A1, of tr]
    unfolding ax by (simp add: walk_begin_def NpyArr_iterBegin_def Let_def)
  have dd: "0 \<le> depth_dims a tr ! 0"
    using A2 k by (metis depth_dims_length nth_mem depth_dims_def set_rev)
  have k1: "Suc 0 \<le> length (PyArray_DIMS a)" using A0 by (cases "PyArray_DIMS a") simp_all
  have at: "strider_at a tr 0 ?n"
    using k1 dd unfolding strider_at_def ax by (simp add: offset_above_def)
  have inv: "walk_inv a tr ?w0"
    unfolding walk_inv_def
    apply (intro exI[of _ ?tc] exI[of _ "[]"])
    using at by (simp add: leaves_above_def)
  have wc: "walk_cost (depth_dims a tr) =
              depth_dims a tr ! 0 * elem_cost (drop (Suc 0) (depth_dims a tr)) + 1"
    using walk_cost_drop[of 0 "depth_dims a tr"] k by simp
  have "steps_left a tr ?w0 = walk_cost (depth_dims a tr)"
    using steps_left_at[of ?w0 a tr 0] at
    unfolding ax wc by (simp add: steps_above_def)
  with b inv show ?thesis by simp
qed


subsection \<open>A walk with an error\<close>

lemma walk_step_leaf_err:
  assumes inv: "walk_inv a tr w"
      and c: "length (contexts w) = length (PyArray_DIMS a)"
      and i: "index (strider w) (stridedim (strider w)) < dim (strider w)"
      and nd: "\<not> PyTypeNum_ISDATETIME np (PyArray_TYPE a)"
      and bad: "getitem (dataptr (strider w)) = None \<or>
           (\<exists>obj jtc enc' e. getitem (dataptr (strider w)) = Some obj \<and>
              Object_beginTypeContext np mem True handler (columnLabels (strider w) \<noteq> None)
                (encoder w) None (Some obj) = (jtc, enc', Some e) \<and> iter_driver jtc = None)"
  shows "\<exists>w'. walk_step np mem getitem True handler w = Some w' \<and> err_inv a tr w'"
proof -
  from inv obtain tc outer where
    ctx: "contexts w = tc # outer" and ws: "well_stacked (tc # outer)"
    and mode: "iterNext tc = NpyArr_iterNext_fn \<or> iterNext tc = NpyArr_iterNextItem_fn"
    and at: "strider_at a tr (length outer) (strider w)"
    and err: "pyerr w = None"
    by (auto simp: walk_inv_def)
  let ?c = "length outer"
  let ?tc0 = "tc\<lparr> iterNext := NpyArr_iterNextItem_fn \<rparr>"
  from c ctx have ck: "Suc ?c = length (PyArray_DIMS a)" by simp
  from at have arr: "array (strider w) = a"
    and cur: "curdim (strider w) = int ?c" and ndm: "ndim (strider w) = PyArray_NDIM a - 1"
    by (simp_all add: strider_at_def)
  have last: "curdim (strider w) \<ge> ndim (strider w)"
    using cur ndm ck by (simp add: PyArray_NDIM_def)
  have nx: "Object_iterNext np getitem (PyArray a) tc (strider w) (encoder w) None =
          Some (NpyArr_iterNextItem np getitem (PyArray a) ?tc0 (strider w) (encoder w) None)"
    using mode last by (auto simp: Object_iterNext_def NpyArr_iterNext_def iterNext_update_same)
  from strider_at_leaf[OF at i, of np getitem "PyArray a" ?tc0 "encoder w"] nd
  obtain tc' enc' err' n' where
    it: "NpyArr_iterNextItem np getitem (PyArray a) ?tc0 (strider w) (encoder w) None
           = (True, tc', n', enc', err')"
    and tc': "iterNext tc' = NpyArr_iterNextItem_fn" "iterEnd tc' = iterEnd tc"
    and item: "itemValue tc' = getitem (dataptr (strider w))" "enc' = encoder w"
      "getitem (dataptr (strider w)) \<noteq> None \<longrightarrow> err' = None"
      "getitem (dataptr (strider w)) = None \<longrightarrow> err' \<noteq> None"
    and at': "strider_at a tr ?c n'" and cl: "columnLabels n' = columnLabels (strider w)"
    by auto
  have disp: "\<exists>jtc enc2 e. Object_beginTypeContext np mem True handler (columnLabels n' \<noteq> None)
                enc' err' (itemValue tc') = (jtc, enc2, Some e) \<and> iter_driver jtc = None"
    using bad
  proof
    assume g: "getitem (dataptr (strider w)) = None"
    with item obtain e where "err' = Some e" by auto
    with g item show ?thesis by (simp add: Object_beginTypeContext_def Let_def)
  next
    assume "\<exists>obj jtc enc' e. getitem (dataptr (strider w)) = Some obj \<and>
              Object_beginTypeContext np mem True handler (columnLabels (strider w) \<noteq> None)
                (encoder w) None (Some obj) = (jtc, enc', Some e) \<and> iter_driver jtc = None"
    with item cl show ?thesis by auto
  qed
  then obtain jtc enc2 e where
    r: "Object_beginTypeContext np mem True handler (columnLabels n' \<noteq> None)
                enc' err' (itemValue tc') = (jtc, enc2, Some e)"
    and dr: "iter_driver jtc = None"
    by blast
  let ?w' = "w\<lparr> strider := n', encoder := enc2, pyerr := Some e,
                contexts := tc' # outer, leaves := leaves w + 1 \<rparr>"
  have step: "walk_step np mem getitem True handler w = Some ?w'"
    using ctx nx it arr err r dr tc'
    by (simp add: walk_step_def)
  have "err_inv a tr ?w'"
    unfolding err_inv_def
    apply (intro exI[of _ tc'] exI[of _ outer])
    using ws tc' at' well_stacked_hd[of tc' tc outer]
    by simp
  with step show ?thesis by blast
qed

lemma walk_step_err:
  assumes inv: "err_inv a tr w"
      and A1: "length (PyArray_STRIDES a) = length (PyArray_DIMS a)"
  shows "\<exists>w'. walk_step np mem getitem True handler w = Some w'
          \<and> (contexts w' = [] \<or> err_inv a tr w')"
proof -
  from inv obtain tc outer e where
    ctx: "contexts w = tc # outer" and ws: "well_stacked (tc # outer)"
    and mode: "iterNext tc = NpyArr_iterNext_fn \<or> iterNext tc = NpyArr_iterNextItem_fn"
    and at: "strider_at a tr (length outer) (strider w)"
    and err: "pyerr w = Some e"
    by (auto simp: err_inv_def)
  have nx: "Object_iterNext np getitem (PyArray (array (strider w))) tc (strider w) (encoder w) (Some e) =
          Some (False, tc, strider w, encoder w, Some e)"
    using mode
    by (auto simp: Object_iterNext_def NpyArr_iterNext_def NpyArr_iterNextItem_def)
  show ?thesis
  proof (cases outer)
    case Nil
    with ws have "iterEnd tc = NpyArr_iterEnd_fn" by simp
    with ctx nx err Nil have "walk_step np mem getitem True handler w =
       Some (w\<lparr> strider := strider w, encoder := encoder w, pyerr := Some e, contexts := [] \<rparr>)"
      by (simp add: walk_step_def)
    then show ?thesis by simp
  next
    case (Cons t' ts)
    with ws have en: "iterEnd tc = NpyArrPassThru_iterEnd_fn"
      and t': "iterNext t' = NpyArr_iterNext_fn" and ws': "well_stacked (t' # ts)"
      by simp_all
    from at Cons have at1: "strider_at a tr (Suc (length ts)) (strider w)" by simp
    from strider_at_pop[OF at1 A1, of tc]
    obtain tc2 n' where
      pop: "NpyArrPassThru_iterEnd tc (strider w) = Some (tc2, n')"
      and at': "strider_at a tr (length ts) n'"
      by blast
    let ?w' = "w\<lparr> strider := n', encoder := encoder w, pyerr := Some e, contexts := t' # ts \<rparr>"
    have step: "walk_step np mem getitem True handler w = Some ?w'"
      using ctx nx err en Cons pop by (simp add: walk_step_def)
    have "err_inv a tr ?w'"
      unfolding err_inv_def
      apply (intro exI[of _ t'] exI[of _ ts])
      using ws' t' at' by simp
    with step show ?thesis by blast
  qed
qed

lemma walk_step_any:
  assumes inv: "walk_inv a tr w \<or> err_inv a tr w"
      and A1: "length (PyArray_STRIDES a) = length (PyArray_DIMS a)"
      and A2: "\<forall>d\<in>set (PyArray_DIMS a). 0 \<le> d"
      and A3: "0 \<le> PyArray_TYPE a"
      and H: "\<not> PyTypeNum_ISDATETIME np (PyArray_TYPE a) \<Longrightarrow>
               \<forall>p b. element_address a p \<longrightarrow> getitem p \<noteq> Some (PyArray b)"
  shows "\<exists>w'. walk_step np mem getitem True handler w = Some w'
          \<and> (contexts w' = [] \<or> walk_inv a tr w' \<or> err_inv a tr w')"
  using inv
proof
  assume "err_inv a tr w"
  from walk_step_err[OF this A1, of np mem getitem handler] show ?thesis by blast
next
  assume inv: "walk_inv a tr w"
  show ?thesis
  proof (cases "index (strider w) (stridedim (strider w)) < dim (strider w)")
    case False
    then show ?thesis using walk_step_stop[OF inv A1, of np mem getitem handler] by auto
  next
    case i: True
    from inv have "Suc (length (tl (contexts w))) \<le> length (PyArray_DIMS a)" "contexts w \<noteq> []"
      by (auto simp: walk_inv_def strider_at_def)
    then have "length (contexts w) \<le> length (PyArray_DIMS a)" by (cases "contexts w") simp_all
    then consider "Suc (length (contexts w)) \<le> length (PyArray_DIMS a)"
      | "length (contexts w) = length (PyArray_DIMS a)" by linarith
    then show ?thesis
    proof cases
      case 1
      from walk_step_descend[OF inv A1 A2 1 i, of np mem getitem handler] show ?thesis by blast
    next
      case 2
      from inv obtain c where at: "strider_at a tr c (strider w)" and ck: "Suc c = length (contexts w)"
        and e: "npyType (encoder w) = - 1"
        by (auto simp: walk_inv_def)
      from strider_at_element_address[OF at _ i A1] ck 2
      have el: "element_address a (dataptr (strider w))" by simp
      let ?lab = "columnLabels (strider w) \<noteq> None"
      consider (ok) "\<not> PyTypeNum_ISDATETIME np (PyArray_TYPE a) \<longrightarrow>
                  (\<exists>obj jtc enc'. getitem (dataptr (strider w)) = Some obj \<and>
                     Object_beginTypeContext np mem True handler ?lab (encoder w) None (Some obj)
                       = (jtc, enc', None) \<and> iter_driver jtc = None)"
        | (bad) "\<not> PyTypeNum_ISDATETIME np (PyArray_TYPE a)"
             "getitem (dataptr (strider w)) = None \<or>
              (\<exists>obj jtc enc' e. getitem (dataptr (strider w)) = Some obj \<and>
                 Object_beginTypeContext np mem True handler ?lab (encoder w) None (Some obj)
                   = (jtc, enc', Some e) \<and> iter_driver jtc = None)"
      proof (cases "PyTypeNum_ISDATETIME np (PyArray_TYPE a)")
        case True
        then show ?thesis by (intro ok) simp
      next
        case nd: False
        show ?thesis
        proof (cases "getitem (dataptr (strider w))")
          case None
          with nd show ?thesis by (intro bad) simp_all
        next
          case (Some obj)
          with H[OF nd] el have "\<forall>b. obj \<noteq> PyArray b" by auto
          from dispatch_not_array[OF _ this, of "encoder w" np mem handler ?lab] e
          obtain jtc r where
            d: "Object_beginTypeContext np mem True handler ?lab (encoder w) None (Some obj)
                  = (jtc, encoder w, r)" and dr: "iter_driver jtc = None"
            by auto
          show ?thesis
          proof (cases r)
            case None
            with Some d dr show ?thesis by (intro ok) auto
          next
            case (Some e')
            with \<open>getitem (dataptr (strider w)) = Some obj\<close> d dr nd show ?thesis
              by (intro bad) auto
          qed
        qed
      qed
      then show ?thesis
      proof cases
        case ok
        have "\<exists>w'. walk_step np mem getitem True handler w = Some w'
              \<and> steps_left a tr w' = steps_left a tr w - 1 \<and> walk_inv a tr w'"
          by (rule walk_step_leaf[OF inv A3 _ 2 i]) (use ok in simp)
        then show ?thesis by blast
      next
        case bad
        have "\<exists>w'. walk_step np mem getitem True handler w = Some w' \<and> err_inv a tr w'"
          by (rule walk_step_leaf_err[OF inv 2 i bad(1)]) (rule bad(2))
        then show ?thesis by blast
      qed
    qed
  qed
qed

lemma walk_run_any:
  assumes A1: "length (PyArray_STRIDES a) = length (PyArray_DIMS a)"
      and A2: "\<forall>d\<in>set (PyArray_DIMS a). 0 \<le> d"
      and A3: "0 \<le> PyArray_TYPE a"
      and H: "\<not> PyTypeNum_ISDATETIME np (PyArray_TYPE a) \<Longrightarrow>
               \<forall>p b. element_address a p \<longrightarrow> getitem p \<noteq> Some (PyArray b)"
  shows "contexts w = [] \<or> walk_inv a tr w \<or> err_inv a tr w \<Longrightarrow>
         \<exists>w'. walk_run np mem getitem True handler n w = Some w' \<and>
               (contexts w' = [] \<or> walk_inv a tr w' \<or> err_inv a tr w')"
proof (induction n arbitrary: w)
  case 0
  then show ?case by simp
next
  case (Suc n)
  show ?case
  proof (cases "contexts w = []")
    case True
    then have "walk_step np mem getitem True handler w = Some w" by (simp add: walk_step_def)
    with Suc.IH[of w] True show ?thesis by simp
  next
    case False
    with Suc.prems have "walk_inv a tr w \<or> err_inv a tr w" by simp
    from walk_step_any[OF this A1 A2 A3 H]
    obtain w1 where s: "walk_step np mem getitem True handler w = Some w1"
      and r: "contexts w1 = [] \<or> walk_inv a tr w1 \<or> err_inv a tr w1"
      by blast
    from Suc.IH[OF r] s show ?thesis by simp
  qed
qed

subsection \<open>The position of the strider\<close>

lemma walked_offset_at:
  assumes c: "c < length (PyArray_DIMS a)"
      and A1: "length (PyArray_STRIDES a) = length (PyArray_DIMS a)"
  shows "walked_offset a tr c ix =
           offset_above a tr c ix + depth_strides a tr ! c * ix (depth_axis a tr c)"
proof -
  have m: "map (\<lambda>j. PyArray_STRIDES a ! nat (depth_axis a tr j) * (ix (depth_axis a tr j) - 1)) [0..<c]
      = map (\<lambda>j. depth_strides a tr ! j * (ix (depth_axis a tr j) - 1)) [0..<c]"
    by (rule map_cong) (use c A1 in \<open>simp_all add: depth_strides_nth\<close>)
  have s: "PyArray_STRIDES a ! nat (depth_axis a tr c) = depth_strides a tr ! c"
    using c A1 by (simp add: depth_strides_nth)
  show ?thesis
    unfolding walked_offset_def offset_above_def m s ..
qed

lemma walk_position:
  assumes inv: "walk_inv a tr w \<or> err_inv a tr w"
      and A1: "length (PyArray_STRIDES a) = length (PyArray_DIMS a)"
  shows "array (strider w) = a"
    and "curdim (strider w) = int (length (contexts w) - 1)"
    and "stridedim (strider w) = depth_axis a tr (length (contexts w) - 1)"
    and "PyArray_DIM a (stridedim (strider w)) = Some (dim (strider w))"
    and "PyArray_STRIDE a (stridedim (strider w)) = Some (stride (strider w))"
    and "dataptr (strider w) =
           PyArray_DATA a + walked_offset a tr (length (contexts w) - 1) (index (strider w))"
    and "0 \<le> index (strider w) (stridedim (strider w))"
    and "index (strider w) (stridedim (strider w)) \<le> dim (strider w)"
    and "\<forall>j<length (contexts w) - 1.
           1 \<le> index (strider w) (depth_axis a tr j) \<and>
           index (strider w) (depth_axis a tr j) \<le> PyArray_DIMS a ! nat (depth_axis a tr j)"
proof -
  let ?c = "length (contexts w) - 1"
  from inv obtain tc outer where "contexts w = tc # outer"
    and "strider_at a tr (length outer) (strider w)"
    unfolding walk_inv_def err_inv_def by blast
  then have at: "strider_at a tr ?c (strider w)" by simp
  then have c: "?c < length (PyArray_DIMS a)" by (simp add: strider_at_def)
  from at show "array (strider w) = a" "curdim (strider w) = int ?c"
    "stridedim (strider w) = depth_axis a tr ?c"
    "0 \<le> index (strider w) (stridedim (strider w))"
    "index (strider w) (stridedim (strider w)) \<le> dim (strider w)"
    by (simp_all add: strider_at_def)
  from at PyArray_DIM_depth[OF c, of tr]
  show "PyArray_DIM a (stridedim (strider w)) = Some (dim (strider w))"
    by (simp add: strider_at_def)
  from at PyArray_STRIDE_depth[OF c A1, of tr]
  show "PyArray_STRIDE a (stridedim (strider w)) = Some (stride (strider w))"
    by (simp add: strider_at_def)
  from at walked_offset_at[OF c A1, of tr "index (strider w)"]
  show "dataptr (strider w) = PyArray_DATA a + walked_offset a tr ?c (index (strider w))"
    by (simp add: strider_at_def)
  show "\<forall>j<?c. 1 \<le> index (strider w) (depth_axis a tr j) \<and>
           index (strider w) (depth_axis a tr j) \<le> PyArray_DIMS a ! nat (depth_axis a tr j)"
  proof (intro allI impI)
    fix j assume j: "j < ?c"
    with c have "j < length (PyArray_DIMS a)" by simp
    from depth_dims_nth[OF this, of tr] at j
    show "1 \<le> index (strider w) (depth_axis a tr j) \<and>
           index (strider w) (depth_axis a tr j) \<le> PyArray_DIMS a ! nat (depth_axis a tr j)"
      by (simp add: strider_at_def)
  qed
qed





text \<open>
  Claim C5, amended. The strider walks an array of one or more axes with sizes that are
  not negative, forwards or transposed; no element of the array is an array itself, and
  no allocation of a type context fails. An element may fail to be fetched or
  dispatched, which leaves an error pending. At every point of the walk at which a type context
  is open, the size and the stride that the strider holds are those of the current
  stride axis of the array, and the data pointer is the base plus the distance that the
  walk keeps: with the strides of the array, an axis that the walk has descended through
  counts with its index less one, the current stride axis with its index, the axes below
  not at all. The index on the current stride axis lies between 0 and the size of that
  axis, both included (it equals the size once the level is exhausted); the index of an
  axis descended through lies between 1 and the size of that axis.
\<close>

theorem strider_position_invariant:
  assumes "PyArray_DIMS a \<noteq> []"
      and "length (PyArray_STRIDES a) = length (PyArray_DIMS a)"
      and "\<forall>d\<in>set (PyArray_DIMS a). 0 \<le> d"
      and "0 \<le> PyArray_TYPE a"
      and "\<not> PyTypeNum_ISDATETIME np (PyArray_TYPE a) \<Longrightarrow>
             \<forall>p b. element_address a p \<longrightarrow> getitem p \<noteq> Some (PyArray b)"
  shows "\<exists>w0. walk_begin garbage a tr enc = Some w0 \<and>
           (\<forall>n. \<exists>w. walk_run np mem getitem True handler n w0 = Some w \<and>
              (contexts w \<noteq> [] \<longrightarrow>
                 array (strider w) = a \<and>
                 curdim (strider w) = int (length (contexts w) - 1) \<and>
                 stridedim (strider w) = depth_axis a tr (length (contexts w) - 1) \<and>
                 PyArray_DIM a (stridedim (strider w)) = Some (dim (strider w)) \<and>
                 PyArray_STRIDE a (stridedim (strider w)) = Some (stride (strider w)) \<and>
                 dataptr (strider w) =
                   PyArray_DATA a + walked_offset a tr (length (contexts w) - 1) (index (strider w)) \<and>
                 0 \<le> index (strider w) (stridedim (strider w)) \<and>
                 index (strider w) (stridedim (strider w)) \<le> dim (strider w) \<and>
                 (\<forall>j<length (contexts w) - 1.
                    1 \<le> index (strider w) (depth_axis a tr j) \<and>
                    index (strider w) (depth_axis a tr j) \<le> PyArray_DIMS a ! nat (depth_axis a tr j))))"
proof -
  from walk_begin_inv[OF assms(1-3), of garbage tr enc] obtain w0 where
    b: "walk_begin garbage a tr enc = Some w0" and inv: "walk_inv a tr w0"
    by blast
  have "\<exists>w. walk_run np mem getitem True handler n w0 = Some w \<and>
              (contexts w \<noteq> [] \<longrightarrow>
                 array (strider w) = a \<and>
                 curdim (strider w) = int (length (contexts w) - 1) \<and>
                 stridedim (strider w) = depth_axis a tr (length (contexts w) - 1) \<and>
                 PyArray_DIM a (stridedim (strider w)) = Some (dim (strider w)) \<and>
                 PyArray_STRIDE a (stridedim (strider w)) = Some (stride (strider w)) \<and>
                 dataptr (strider w) =
                   PyArray_DATA a + walked_offset a tr (length (contexts w) - 1) (index (strider w)) \<and>
                 0 \<le> index (strider w) (stridedim (strider w)) \<and>
                 index (strider w) (stridedim (strider w)) \<le> dim (strider w) \<and>
                 (\<forall>j<length (contexts w) - 1.
                    1 \<le> index (strider w) (depth_axis a tr j) \<and>
                    index (strider w) (depth_axis a tr j) \<le> PyArray_DIMS a ! nat (depth_axis a tr j)))" for n
  proof -
    from walk_run_any[OF assms(2-5), where w = w0 and tr = tr and n = n] inv obtain w where
      r: "walk_run np mem getitem True handler n w0 = Some w"
      and i: "contexts w = [] \<or> walk_inv a tr w \<or> err_inv a tr w"
      by blast
    show ?thesis
    proof (rule exI[of _ w], rule conjI[OF r], rule impI)
      assume "contexts w \<noteq> []"
      with i have p: "walk_inv a tr w \<or> err_inv a tr w" by simp
      note P = walk_position[OF p assms(2)]
      show "array (strider w) = a \<and>
                 curdim (strider w) = int (length (contexts w) - 1) \<and>
                 stridedim (strider w) = depth_axis a tr (length (contexts w) - 1) \<and>
                 PyArray_DIM a (stridedim (strider w)) = Some (dim (strider w)) \<and>
                 PyArray_STRIDE a (stridedim (strider w)) = Some (stride (strider w)) \<and>
                 dataptr (strider w) =
                   PyArray_DATA a + walked_offset a tr (length (contexts w) - 1) (index (strider w)) \<and>
                 0 \<le> index (strider w) (stridedim (strider w)) \<and>
                 index (strider w) (stridedim (strider w)) \<le> dim (strider w) \<and>
                 (\<forall>j<length (contexts w) - 1.
                    1 \<le> index (strider w) (depth_axis a tr j) \<and>
                    index (strider w) (depth_axis a tr j) \<le> PyArray_DIMS a ! nat (depth_axis a tr j))"
        by (intro conjI P)
    qed
  qed
  with b show ?thesis by blast
qed

theorem strider_position_invariant_witness:
  "\<exists>w0. walk_begin (\<lambda>i. 0)
           \<lparr> PyArray_DATA = 1000, PyArray_DIMS = [2, 3], PyArray_STRIDES = [24, 8], PyArray_TYPE = 7 \<rparr> False
           \<lparr> forceASCII = True, encodeHTMLChars = False, doublePrecision = 10,
             npyCtxtPassthru = False, npyType = - 1, npyValue = 0,
             datetimeIso = False, datetimeUnit = NPY_FR_ms,
             outputFormat = COLUMNS, originalOutputFormat = COLUMNS, defaultHandler = False \<rparr> = Some w0 \<and>
     (\<exists>w. walk_run
           \<lparr> PyTypeNum_ISFLOAT = (\<lambda>t. t = 12), PyTypeNum_ISDATETIME = (\<lambda>t. t = 21 \<or> t = 22),
             PyTypeNum_ISINTEGER = (\<lambda>t. 1 \<le> t \<and> t \<le> 10), PyTypeNum_ISBOOL = (\<lambda>t. t = 0) \<rparr>
           (\<lambda>p. \<lparr> as_double_nan_or_inf = False, as_int64 = 5, as_bool = False \<rparr>)
           (\<lambda>p. Some (PyLong 1)) True (\<lambda>e. e) 3 w0 = Some w \<and>
        contexts w \<noteq> [] \<and> length (contexts w) = 2 \<and>
        dataptr (strider w) = 1016 \<and>
        PyArray_DATA \<lparr> PyArray_DATA = 1000, PyArray_DIMS = [2, 3], PyArray_STRIDES = [24, 8], PyArray_TYPE = 7 \<rparr>
          + walked_offset \<lparr> PyArray_DATA = 1000, PyArray_DIMS = [2, 3], PyArray_STRIDES = [24, 8], PyArray_TYPE = 7 \<rparr>
              False 1 (index (strider w)) = 1016 \<and>
        PyArray_STRIDE \<lparr> PyArray_DATA = 1000, PyArray_DIMS = [2, 3], PyArray_STRIDES = [24, 8], PyArray_TYPE = 7 \<rparr>
          (stridedim (strider w)) = Some 8 \<and> stride (strider w) = 8 \<and>
        index (strider w) (stridedim (strider w)) = 2 \<and> dim (strider w) = 3)"
proof -
  let ?a = "\<lparr> PyArray_DATA = 1000, PyArray_DIMS = [2, 3], PyArray_STRIDES = [24, 8], PyArray_TYPE = 7 \<rparr>"
  let ?np = "\<lparr> PyTypeNum_ISFLOAT = (\<lambda>t. t = 12), PyTypeNum_ISDATETIME = (\<lambda>t. t = 21 \<or> t = 22),
             PyTypeNum_ISINTEGER = (\<lambda>t. 1 \<le> t \<and> t \<le> 10), PyTypeNum_ISBOOL = (\<lambda>t. t = 0) \<rparr>"
  let ?mem = "(\<lambda>p. \<lparr> as_double_nan_or_inf = False, as_int64 = 5, as_bool = False \<rparr>)"
  let ?get = "(\<lambda>p. Some (PyLong 1)) :: int \<Rightarrow> pyobj option"
  let ?enc = "\<lparr> forceASCII = True, encodeHTMLChars = False, doublePrecision = 10,
             npyCtxtPassthru = False, npyType = - 1, npyValue = 0,
             datetimeIso = False, datetimeUnit = NPY_FR_ms,
             outputFormat = COLUMNS, originalOutputFormat = COLUMNS, defaultHandler = False \<rparr>"
  have 1: "PyArray_DIMS ?a \<noteq> []" and 2: "length (PyArray_STRIDES ?a) = length (PyArray_DIMS ?a)"
    and 3: "\<forall>d\<in>set (PyArray_DIMS ?a). 0 \<le> d" and 4: "0 \<le> PyArray_TYPE ?a"
    by simp_all
  have 5: "\<not> PyTypeNum_ISDATETIME ?np (PyArray_TYPE ?a) \<Longrightarrow>
             \<forall>p b. element_address ?a p \<longrightarrow> ?get p \<noteq> Some (PyArray b)"
    by simp
  from strider_position_invariant[where a = ?a and np = ?np and getitem = ?get and mem = ?mem
      and handler = "\<lambda>e. e" and garbage = "\<lambda>i. 0" and tr = False and enc = ?enc, OF 1 2 3 4 5]
  obtain w0 w where
    b: "walk_begin (\<lambda>i. 0) ?a False ?enc = Some w0"
    and r: "walk_run ?np ?mem ?get True (\<lambda>e. e) 3 w0 = Some w"
    and p: "contexts w \<noteq> [] \<longrightarrow>
              PyArray_STRIDE ?a (stridedim (strider w)) = Some (stride (strider w)) \<and>
              dataptr (strider w) =
                PyArray_DATA ?a + walked_offset ?a False (length (contexts w) - 1) (index (strider w))"
    by blast
  have e: "map_option (\<lambda>w. (contexts w \<noteq> [], length (contexts w), dataptr (strider w),
                            index (strider w) (stridedim (strider w)), dim (strider w),
                            stride (strider w)))
             (Option.bind (walk_begin (\<lambda>i. 0) ?a False ?enc)
                (walk_run ?np ?mem ?get True (\<lambda>e. e) 3))
           = Some (True, 2, 1016, 2, 3, 8)"
    by code_simp
  from e b r have v: "contexts w \<noteq> []" "length (contexts w) = 2" "dataptr (strider w) = 1016"
    "index (strider w) (stridedim (strider w)) = 2" "dim (strider w) = 3" "stride (strider w) = 8"
    by simp_all
  with p have "PyArray_DATA ?a + walked_offset ?a False 1 (index (strider w)) = 1016"
    and "PyArray_STRIDE ?a (stridedim (strider w)) = Some 8"
    by simp_all
  with b r v show ?thesis by blast
qed

text \<open>
  The formula of the specification fails after the first descent into an array of the
  sizes 2 and 3 with the strides 24 and 8 at the base 1000: the data pointer is 1000, the
  formula gives 1024. In an array of one axis of size 1 the index on the stride axis is
  1 after the only leaf, which is the size of the axis.
\<close>

theorem strider_spec_formula_counterexample:
  "map_option (\<lambda>w. (contexts w \<noteq> [], dataptr (strider w),
                     PyArray_DATA (array (strider w)) + spec_offset (strider w)))
     (Option.bind
        (walk_begin (\<lambda>i. 0)
           \<lparr> PyArray_DATA = 1000, PyArray_DIMS = [2, 3], PyArray_STRIDES = [24, 8], PyArray_TYPE = 7 \<rparr> False
           \<lparr> forceASCII = True, encodeHTMLChars = False, doublePrecision = 10,
             npyCtxtPassthru = False, npyType = - 1, npyValue = 0,
             datetimeIso = False, datetimeUnit = NPY_FR_ms,
             outputFormat = COLUMNS, originalOutputFormat = COLUMNS, defaultHandler = False \<rparr>)
        (walk_run
           \<lparr> PyTypeNum_ISFLOAT = (\<lambda>t. t = 12), PyTypeNum_ISDATETIME = (\<lambda>t. t = 21 \<or> t = 22),
             PyTypeNum_ISINTEGER = (\<lambda>t. 1 \<le> t \<and> t \<le> 10), PyTypeNum_ISBOOL = (\<lambda>t. t = 0) \<rparr>
           (\<lambda>p. \<lparr> as_double_nan_or_inf = False, as_int64 = 5, as_bool = False \<rparr>)
           (\<lambda>p. Some (PyLong 1)) True (\<lambda>e. e) 1))
   = Some (True, 1000, 1024)
   \<and> map_option (\<lambda>w. (contexts w \<noteq> [], index (strider w) (stridedim (strider w)),
                       PyArray_DIM (array (strider w)) (stridedim (strider w))))
     (Option.bind
        (walk_begin (\<lambda>i. 0)
           \<lparr> PyArray_DATA = 1000, PyArray_DIMS = [1], PyArray_STRIDES = [8], PyArray_TYPE = 7 \<rparr> False
           \<lparr> forceASCII = True, encodeHTMLChars = False, doublePrecision = 10,
             npyCtxtPassthru = False, npyType = - 1, npyValue = 0,
             datetimeIso = False, datetimeUnit = NPY_FR_ms,
             outputFormat = COLUMNS, originalOutputFormat = COLUMNS, defaultHandler = False \<rparr>)
        (walk_run
           \<lparr> PyTypeNum_ISFLOAT = (\<lambda>t. t = 12), PyTypeNum_ISDATETIME = (\<lambda>t. t = 21 \<or> t = 22),
             PyTypeNum_ISINTEGER = (\<lambda>t. 1 \<le> t \<and> t \<le> 10), PyTypeNum_ISBOOL = (\<lambda>t. t = 0) \<rparr>
           (\<lambda>p. \<lparr> as_double_nan_or_inf = False, as_int64 = 5, as_bool = False \<rparr>)
           (\<lambda>p. Some (PyLong 1)) True (\<lambda>e. e) 1))
   = Some (True, 1, Some 1)
   \<and> (1000 :: int) \<noteq> 1024 \<and> \<not> (1 :: int) < 1"
  by code_simp

end
